theory Spec2Isabelle
  imports Main "HOL-Library.Sublist"
begin

section \<open>Python values, rows and data frames\<close>

text \<open>
  A cell of a Python dict or of a pandas DataFrame: a string, \<open>None\<close>, or the missing
  value \<open>NaN\<close> that pandas puts where a row has no entry for a column.
\<close>

datatype pyval = Str string | NoneV | NaN

text \<open>A Python dict with string keys (one scraped row, one DataFrame row, one table row
  of the database), in insertion order.\<close>

type_synonym row = "(string \<times> pyval) list"

definition get_col :: "row \<Rightarrow> string \<Rightarrow> pyval" where
  "get_col r c = (case map_of r c of Some v \<Rightarrow> v | None \<Rightarrow> NaN)"

definition set_col :: "string \<Rightarrow> pyval \<Rightarrow> row \<Rightarrow> row" where
  "set_col c v r = (if c \<in> fst ` set r then map (\<lambda>(k, w). if k = c then (k, v) else (k, w)) r
                    else r @ [(c, v)])"

text \<open>\<open>str(v)\<close> for the three kinds of cell.\<close>

fun py_str :: "pyval \<Rightarrow> string" where
  "py_str (Str s) = s"
| "py_str NoneV = ''None''"
| "py_str NaN = ''nan''"

text \<open>\<open>pd.isna\<close>.\<close>

fun isna :: "pyval \<Rightarrow> bool" where
  "isna (Str s) = False"
| "isna NoneV = True"
| "isna NaN = True"

record dataframe =
  df_columns :: "string list"
  df_rows :: "row list"

text \<open>\<open>pd.DataFrame()\<close>.\<close>

definition empty_df :: dataframe where
  "empty_df = \<lparr>df_columns = [], df_rows = []\<rparr>"

text \<open>\<open>df.empty\<close>: one of the two axes has length 0.\<close>

definition df_empty :: "dataframe \<Rightarrow> bool" where
  "df_empty df = (df_columns df = [] \<or> df_rows df = [])"

datatype error = KeyError | FetchError | StorageError | UploadError | OSError

section \<open>scraper.py\<close>

subsection \<open>The parsed page\<close>

text \<open>
  What \<open>extract_table_rows\<close> reads of the BeautifulSoup tree: the table with id
  \<open>stds-results-table\<close> (if \<open>soup.find\<close> finds one), its \<open>tr\<close> elements in document
  order, of each the \<open>td\<close> elements (\<open>th\<close> cells are not found by \<open>find_all("td")\<close>), of each
  \<open>td\<close> the stripped text and the first \<open>a\<close> element inside it, of that its stripped text
  and its \<open>href\<close> attribute, which an \<open>a\<close> element need not have.
\<close>

record anchor =
  a_text :: string
  a_href :: "string option"

record td =
  td_text :: string
  td_a :: "anchor option"

type_synonym tr = "td list"

type_synonym soup = "tr list option"

subsection \<open>extract_table_rows\<close>

text \<open>\<open>a_tag.get_text(strip=True) if a_tag else row_texts[i]\<close>\<close>

definition title_of :: "anchor option \<Rightarrow> string \<Rightarrow> string" where
  "title_of a txt = (case a of Some t \<Rightarrow> a_text t | None \<Rightarrow> txt)"

text \<open>
  \<open>urljoin(FDA_BASE_URL, a_tag["href"]) if a_tag else ""\<close>. The subscript raises
  \<open>KeyError\<close> on an \<open>a\<close> element without \<open>href\<close>. \<open>urljoin\<close> is Python's
  \<open>urllib.parse.urljoin\<close> and \<open>base\<close> is \<open>config.FDA_BASE_URL\<close>; both are parameters.
\<close>

definition link_of :: "(string \<Rightarrow> string \<Rightarrow> string) \<Rightarrow> string \<Rightarrow> anchor option \<Rightarrow> error + string" where
  "link_of urljoin base a =
     (case a of
        None \<Rightarrow> Inr ''''
      | Some t \<Rightarrow> (case a_href t of None \<Rightarrow> Inl KeyError | Some h \<Rightarrow> Inr (urljoin base h)))"

text \<open>The dict built for a row of at least 7 cells.\<close>

definition full_row :: "(string \<Rightarrow> string \<Rightarrow> string) \<Rightarrow> string \<Rightarrow> tr \<Rightarrow> error + row" where
  "full_row urljoin base tds =
     (let row_texts = map td_text tds; a_tag = td_a (tds ! 6) in
      case link_of urljoin base a_tag of
        Inl e \<Rightarrow> Inl e
      | Inr link \<Rightarrow> Inr
          [(''date_of_entry'', Str (row_texts ! 0)),
           (''specialty_task_group_area'', Str (row_texts ! 1)),
           (''recognition_number'', Str (row_texts ! 2)),
           (''extent_of_recognition'', Str (row_texts ! 3)),
           (''standards_developing_organization'', Str (row_texts ! 4)),
           (''standard_designation_number_and_date'', Str (row_texts ! 5)),
           (''standard_title'', Str (title_of a_tag (row_texts ! 6))),
           (''title_link'', Str link)])"

text \<open>The dict built for a row of exactly 3 cells, from the carried four values.\<close>

definition continuation_row ::
  "(string \<Rightarrow> string \<Rightarrow> string) \<Rightarrow> string \<Rightarrow> pyval list \<Rightarrow> tr \<Rightarrow> error + row" where
  "continuation_row urljoin base carry tds =
     (let row_texts = map td_text tds; a_tag = td_a (tds ! 2) in
      case link_of urljoin base a_tag of
        Inl e \<Rightarrow> Inl e
      | Inr link \<Rightarrow> Inr
          [(''date_of_entry'', carry ! 0),
           (''specialty_task_group_area'', carry ! 1),
           (''recognition_number'', carry ! 2),
           (''extent_of_recognition'', carry ! 3),
           (''standards_developing_organization'', Str (row_texts ! 0)),
           (''standard_designation_number_and_date'', Str (row_texts ! 1)),
           (''standard_title'', Str (title_of a_tag (row_texts ! 2))),
           (''title_link'', Str link)])"

text \<open>\<open>header_template is None and any("Date" in txt for txt in row_texts)\<close>\<close>

definition detects_header :: "string list option \<Rightarrow> string list \<Rightarrow> bool" where
  "detects_header header_template row_texts =
     (header_template = None \<and> list_ex (\<lambda>txt. sublist ''Date'' txt) row_texts)"

text \<open>\<open>header_template and row_texts == header_template\<close> (an empty list is falsy).\<close>

definition matches_header :: "string list option \<Rightarrow> string list \<Rightarrow> bool" where
  "matches_header header_template row_texts =
     (case header_template of None \<Rightarrow> False | Some h \<Rightarrow> h \<noteq> [] \<and> row_texts = h)"

text \<open>
  The \<open>for tr in table.find_all("tr")\<close> loop, with its three variables \<open>rows\<close>,
  \<open>carry\<close> and \<open>header_template\<close>. An exception leaves the loop and the function.
\<close>

fun extract_rows_loop ::
  "(string \<Rightarrow> string \<Rightarrow> string) \<Rightarrow> string \<Rightarrow> tr list \<Rightarrow> row list \<Rightarrow> pyval list \<Rightarrow>
   string list option \<Rightarrow> error + (row list \<times> string list option)" where
  "extract_rows_loop urljoin base [] rows carry header_template = Inr (rows, header_template)"
| "extract_rows_loop urljoin base (tds # trs) rows carry header_template =
     (if tds = [] then extract_rows_loop urljoin base trs rows carry header_template
      else if detects_header header_template (map td_text tds)
        then extract_rows_loop urljoin base trs rows carry (Some (map td_text tds))
      else if matches_header header_template (map td_text tds)
        then extract_rows_loop urljoin base trs rows carry header_template
      else if length tds \<ge> 7 then
        (case full_row urljoin base tds of
           Inl e \<Rightarrow> Inl e
         | Inr row \<Rightarrow> extract_rows_loop urljoin base trs (rows @ [row])
                       (map Str (take 4 (map td_text tds))) header_template)
      else if length tds = 3 then
        (case continuation_row urljoin base carry tds of
           Inl e \<Rightarrow> Inl e
         | Inr row \<Rightarrow> extract_rows_loop urljoin base trs (rows @ [row]) carry header_template)
      else extract_rows_loop urljoin base trs rows carry header_template)"

definition extract_table_rows ::
  "(string \<Rightarrow> string \<Rightarrow> string) \<Rightarrow> string \<Rightarrow> soup \<Rightarrow> string list option \<Rightarrow>
   error + (row list \<times> string list option)" where
  "extract_table_rows urljoin base soup header_template =
     (case soup of
        None \<Rightarrow> Inr ([], header_template)
      | Some trs \<Rightarrow> extract_rows_loop urljoin base trs [] [NoneV, NoneV, NoneV, NoneV] header_template)"

subsection \<open>scrape_fda_standards\<close>

text \<open>
  The variables of the \<open>while True\<close> loop, and with them the list of the \<open>start\<close>
  values \<open>fetch_page\<close> has been called with, in call order.
\<close>

record crawl =
  c_rows :: "row list"
  c_start :: nat
  c_header :: "string list option"
  c_fetches :: "nat list"

datatype step = Break crawl | Continue crawl

text \<open>
  One pass through the loop body. \<open>fetch_page\<close> stands for the HTTP request of
  \<open>fetch_page(start, session)\<close> (with \<open>pagenum\<close> 500) followed by the parse
  \<open>BeautifulSoup(html, "html.parser")\<close>: what the listing serves at offset \<open>start\<close>, or
  the exception raised. Any exception raised in the body is caught and ends the loop.
\<close>

definition scrape_step ::
  "(nat \<Rightarrow> error + soup) \<Rightarrow> (string \<Rightarrow> string \<Rightarrow> string) \<Rightarrow> string \<Rightarrow> crawl \<Rightarrow> step" where
  "scrape_step fetch_page urljoin base st =
     (let st1 = st\<lparr>c_fetches := c_fetches st @ [c_start st]\<rparr> in
      case fetch_page (c_start st) of
        Inl e \<Rightarrow> Break st1
      | Inr soup \<Rightarrow>
          (case extract_table_rows urljoin base soup (c_header st) of
             Inl e \<Rightarrow> Break st1
           | Inr (page_rows, header_template) \<Rightarrow>
               (if page_rows = [] then Break (st1\<lparr>c_header := header_template\<rparr>)
                else if length page_rows < 500
                  then Break (st1\<lparr>c_rows := c_rows st @ page_rows, c_header := header_template\<rparr>)
                else Continue (st1\<lparr>c_rows := c_rows st @ page_rows, c_header := header_template,
                                   c_start := c_start st + 500\<rparr>))))"

partial_function (option) scrape_loop ::
  "(nat \<Rightarrow> error + soup) \<Rightarrow> (string \<Rightarrow> string \<Rightarrow> string) \<Rightarrow> string \<Rightarrow> crawl \<Rightarrow> crawl option" where
  "scrape_loop fetch_page urljoin base st =
     (case scrape_step fetch_page urljoin base st of
        Break st' \<Rightarrow> Some st'
      | Continue st' \<Rightarrow> scrape_loop fetch_page urljoin base st')"

text \<open>\<open>pd.DataFrame(all_rows, columns=cols)\<close>: one row per dict, the given columns in the
  given order, \<open>NaN\<close> where a dict has no such key.\<close>

definition make_dataframe :: "row list \<Rightarrow> string list \<Rightarrow> dataframe" where
  "make_dataframe all_rows cols =
     \<lparr>df_columns = cols, df_rows = map (\<lambda>r. map (\<lambda>c. (c, get_col r c)) cols) all_rows\<rparr>"

text \<open>\<open>df.fillna(v)\<close>\<close>

definition fillna :: "string \<Rightarrow> dataframe \<Rightarrow> dataframe" where
  "fillna v df = df\<lparr>df_rows := map (map (\<lambda>(c, x). (c, if isna x then Str v else x))) (df_rows df)\<rparr>"

text \<open>\<open>df.astype(str)\<close>\<close>

definition astype_str :: "dataframe \<Rightarrow> dataframe" where
  "astype_str df = df\<lparr>df_rows := map (map (\<lambda>(c, x). (c, Str (py_str x)))) (df_rows df)\<rparr>"

text \<open>The last statement but two of \<open>scrape_fda_standards\<close>:
  \<open>pd.DataFrame(all_rows, columns=COLUMNS).fillna("").astype(str)\<close>.\<close>

definition to_frame :: "string list \<Rightarrow> row list \<Rightarrow> dataframe" where
  "to_frame cols all_rows = astype_str (fillna '''' (make_dataframe all_rows cols))"

text \<open>
  Modelled from the spec: \<open>config.COLUMNS\<close>, which is not among the sources. The spec's
  data model lists the fields of a StandardRecord; they are taken here in that order.
\<close>

definition COLUMNS :: "string list" where
  "COLUMNS =
     [''date_of_entry'', ''specialty_task_group_area'', ''recognition_number'',
      ''extent_of_recognition'', ''standards_developing_organization'',
      ''standard_designation_number_and_date'', ''standard_title'', ''title_link'']"

text \<open>The values of the loop variables before the first pass: no rows, \<open>start = 1\<close>,
  no header template.\<close>

definition crawl_init :: crawl where
  "crawl_init = \<lparr>c_rows = [], c_start = 1, c_header = None, c_fetches = []\<rparr>"

text \<open>
  \<open>scrape_fda_standards\<close>: the frame returned, paired with the offsets fetched. The
  result is \<open>None\<close> when the loop never ends.
\<close>

definition scrape_fda_standards ::
  "(nat \<Rightarrow> error + soup) \<Rightarrow> (string \<Rightarrow> string \<Rightarrow> string) \<Rightarrow> string \<Rightarrow> string list \<Rightarrow>
   (dataframe \<times> nat list) option" where
  "scrape_fda_standards fetch_page urljoin base cols =
     map_option (\<lambda>st. (to_frame cols (c_rows st), c_fetches st))
       (scrape_loop fetch_page urljoin base crawl_init)"

section \<open>fda_db_operations.py\<close>

text \<open>
  The table \<open>fda_standards\<close>: its rows in insertion order, each a map from column name to
  value, SQL \<open>NULL\<close> being \<open>NoneV\<close>. The table's declaration is not among the sources, so
  the table takes any row; a statement the server refuses is an exception of the operation
  that sends it. Each operation on the engine takes the exception it raises there, if any,
  as an argument (\<open>None\<close>: the operation goes through).
\<close>

type_synonym table = "row list"

text \<open>\<open>generate_unique_id\<close>; \<open>md5_hex s\<close> is \<open>hashlib.md5(s.encode()).hexdigest()\<close>, a
  parameter.\<close>

definition generate_unique_id :: "(string \<Rightarrow> string) \<Rightarrow> string \<Rightarrow> string \<Rightarrow> string \<Rightarrow> string" where
  "generate_unique_id md5_hex recognition_number standards_developing_organization
       standard_designation_number_and_date =
     md5_hex (recognition_number @ ''|'' @ standards_developing_organization @ ''|'' @
              standard_designation_number_and_date)"

definition required_cols :: "string list" where
  "required_cols = [''recognition_number'', ''standards_developing_organization'',
                    ''standard_designation_number_and_date'']"

definition missing_cols :: "dataframe \<Rightarrow> string list" where
  "missing_cols df = filter (\<lambda>col. col \<notin> set (df_columns df)) required_cols"

text \<open>\<open>SELECT unique_id FROM fda_standards WHERE unique_id IS NOT NULL\<close>\<close>

definition existing_ids :: "table \<Rightarrow> string list" where
  "existing_ids db =
     concat (map (\<lambda>r. case get_col r ''unique_id'' of Str s \<Rightarrow> [s] | NoneV \<Rightarrow> [] | NaN \<Rightarrow> []) db)"

text \<open>The lambda applied to each row in \<open>check_duplicates\<close>.\<close>

definition row_unique_id :: "(string \<Rightarrow> string) \<Rightarrow> row \<Rightarrow> string" where
  "row_unique_id md5_hex r =
     generate_unique_id md5_hex
       (py_str (get_col r ''recognition_number''))
       (py_str (get_col r ''standards_developing_organization''))
       (py_str (get_col r ''standard_designation_number_and_date''))"

text \<open>\<open>df[c] = ...\<close>: the column is replaced where it exists and appended where not.\<close>

definition add_column :: "string \<Rightarrow> string list \<Rightarrow> string list" where
  "add_column c cols = (if c \<in> set cols then cols else cols @ [c])"

definition assign_col :: "string \<Rightarrow> (row \<Rightarrow> pyval) \<Rightarrow> dataframe \<Rightarrow> dataframe" where
  "assign_col c f df =
     \<lparr>df_columns = add_column c (df_columns df),
      df_rows = map (\<lambda>r. set_col c (f r) r) (df_rows df)\<rparr>"

text \<open>
  \<open>check_duplicates\<close>. \<open>read_exc\<close> is the exception raised by \<open>engine.connect()\<close> or by
  the \<open>SELECT\<close>; the \<open>except\<close> clause turns it into an empty frame.
\<close>

definition check_duplicates ::
  "(string \<Rightarrow> string) \<Rightarrow> error option \<Rightarrow> table \<Rightarrow> dataframe \<Rightarrow> dataframe" where
  "check_duplicates md5_hex read_exc db df =
     (if df_empty df then empty_df
      else if missing_cols df \<noteq> [] then empty_df
      else case read_exc of
        Some e \<Rightarrow> empty_df
      | None \<Rightarrow>
          (let ids = existing_ids db;
               df1 = assign_col ''unique_id'' (\<lambda>r. Str (row_unique_id md5_hex r)) df
           in df1\<lparr>df_rows := filter (\<lambda>r. py_str (get_col r ''unique_id'') \<notin> set ids) (df_rows df1)\<rparr>))"

text \<open>The second component of the pair \<open>insert_new_standards\<close> returns: \<open>"No new
  records to insert"\<close>, \<open>f"Inserted {n} records"\<close>, \<open>f"Insert failed: {e}"\<close>.\<close>

datatype message = No_new_records | Inserted nat | Insert_failed error

definition s3_bucket :: string where
  "s3_bucket = ''lexim-international''"

definition s3_prefix :: string where
  "s3_prefix = ''FDA_STANDARDS/''"

text \<open>The loop over \<open>defaults.items()\<close>, one entry at a time.\<close>

definition apply_default :: "string \<Rightarrow> pyval \<Rightarrow> dataframe \<Rightarrow> dataframe" where
  "apply_default col dflt df =
     (if col \<notin> set (df_columns df) then assign_col col (\<lambda>r. dflt) df
      else assign_col col (\<lambda>r. if isna (get_col r col) then dflt else get_col r col) df)"

text \<open>What \<open>to_sql\<close> writes for one row of the frame: a missing value becomes \<open>NULL\<close>.\<close>

definition sql_row :: "row \<Rightarrow> row" where
  "sql_row r = map (\<lambda>(c, v). (c, if isna v then NoneV else v)) r"

text \<open>
  The frame \<open>insert_new_standards\<close> hands to \<open>to_sql\<close>. \<open>to_iso\<close> is
  \<open>pd.to_datetime(_, format='%m/%d/%Y', errors='coerce').dt.strftime('%Y-%m-%d')\<close> on one
  value, a parameter.
\<close>

definition prepare_insert :: "(pyval \<Rightarrow> pyval) \<Rightarrow> dataframe \<Rightarrow> dataframe" where
  "prepare_insert to_iso new_df =
     (let d1 = assign_col ''aws_bucket'' (\<lambda>r. Str s3_bucket) new_df;
          d2 = assign_col ''aws_key'' (\<lambda>r. NoneV) d1;
          d3 = assign_col ''aws_html_key'' (\<lambda>r. NoneV) d2;
          d4 = (if ''date_of_entry'' \<in> set (df_columns d3)
                then assign_col ''date_of_entry'' (\<lambda>r. to_iso (get_col r ''date_of_entry'')) d3
                else d3);
          d5 = apply_default ''standard_title'' (Str '''') d4;
          d6 = apply_default ''specialty_task_group_area'' (Str ''UNKNOWN'') d5;
          d7 = apply_default ''aws_key'' NoneV d6
      in apply_default ''aws_html_key'' NoneV d7)"

text \<open>
  \<open>insert_new_standards\<close>: the table afterwards and the pair returned. \<open>write_exc\<close> is
  the exception raised by \<open>to_sql\<close>, which runs in one transaction.
\<close>

definition insert_new_standards ::
  "(string \<Rightarrow> string) \<Rightarrow> (pyval \<Rightarrow> pyval) \<Rightarrow> error option \<Rightarrow> error option \<Rightarrow> table \<Rightarrow> dataframe \<Rightarrow>
   table \<times> bool \<times> message" where
  "insert_new_standards md5_hex to_iso read_exc write_exc db df =
     (let new_df = check_duplicates md5_hex read_exc db df in
      if df_empty new_df then (db, True, No_new_records)
      else let new_df' = prepare_insert to_iso new_df in
        case write_exc of
          Some e \<Rightarrow> (db, False, Insert_failed e)
        | None \<Rightarrow> (db @ map sql_row (df_rows new_df'), True, Inserted (length (df_rows new_df'))))"

text \<open>SQL \<open>=\<close> on two values: never true of \<open>NULL\<close>.\<close>

fun sql_eq :: "pyval \<Rightarrow> pyval \<Rightarrow> bool" where
  "sql_eq (Str a) (Str b) = (a = b)"
| "sql_eq _ _ = False"

text \<open>
  \<open>update_s3_paths\<close>: the table afterwards and the boolean returned. \<open>exc\<close> is the
  exception raised inside \<open>engine.begin()\<close>, in which case the transaction is rolled back.
  \<open>result.rowcount\<close> is the number of rows the \<open>WHERE\<close> clause matches (SQLAlchemy's
  MySQL drivers connect with the found-rows flag), and the comparison of the clause is
  taken as equality of strings.
\<close>

definition update_s3_paths ::
  "error option \<Rightarrow> table \<Rightarrow> pyval \<Rightarrow> string \<Rightarrow> string \<Rightarrow> table \<times> bool" where
  "update_s3_paths exc db title_link pdf_filename html_filename =
     (case exc of
        Some e \<Rightarrow> (db, False)
      | None \<Rightarrow>
          (let hit = (\<lambda>r. sql_eq (get_col r ''title_link'') title_link);
               db' = map (\<lambda>r. if hit r
                               then set_col ''aws_html_key'' (Str (s3_prefix @ ''HTML/'' @ html_filename))
                                      (set_col ''aws_key'' (Str (s3_prefix @ ''PDF/'' @ pdf_filename)) r)
                               else r) db;
               rowcount = length (filter hit db)
           in (db', rowcount > 0)))"

text \<open>The \<open>WHERE\<close> clause of \<open>get_unprocessed_standards\<close>.\<close>

definition null_or_empty :: "pyval \<Rightarrow> bool" where
  "null_or_empty v = (case v of Str s \<Rightarrow> s = [] | NoneV \<Rightarrow> True | NaN \<Rightarrow> True)"

definition unprocessed :: "row \<Rightarrow> bool" where
  "unprocessed r = (null_or_empty (get_col r ''aws_key'') \<or> null_or_empty (get_col r ''aws_html_key''))"

section \<open>s3_operations.py and pdf_html_generator.py\<close>

text \<open>
  What \<open>process_standard\<close> acts on: the table, the keys present in the bucket, the paths
  of the local files.
\<close>

record world =
  w_db :: table
  w_s3 :: "string list"
  w_files :: "string list"

text \<open>The row handed to \<open>process_standard\<close>.\<close>

record entry =
  e_title_link :: pyval
  e_pdf_filename :: string
  e_html_filename :: string

text \<open>How one call of boto3's \<open>upload_file\<close> ends: it returns, raises \<open>ClientError\<close>, or
  raises something else.\<close>

datatype s3_outcome = Uploaded | Client_error | Other_exception

text \<open>
  What lies outside the sources or outside the machine: whether S3 is in use
  (\<open>self.use_s3\<close>), the result of \<open>extract_detailed_data(url, row)\<close> (\<open>None\<close> for a
  falsy result), whether \<open>generate_pdf\<close> and \<open>generate_html\<close> write their file, how the upload
  to a key ends, the exception of the database update, and the two directories.
\<close>

record 'd env =
  use_s3 :: bool
  extract_detailed_data :: "pyval \<Rightarrow> entry \<Rightarrow> 'd option"
  pdf_written :: bool
  html_written :: bool
  upload_outcome :: "string \<Rightarrow> s3_outcome"
  update_exc :: "error option"
  pdf_dir :: string
  html_dir :: string

text \<open>\<open>str.strip()\<close> on ASCII text.\<close>

definition is_space :: "char \<Rightarrow> bool" where
  "is_space c = (c \<in> set [CHR 0x20, CHR 0x09, CHR 0x0A, CHR 0x0B, CHR 0x0C, CHR 0x0D,
                            CHR 0x1C, CHR 0x1D, CHR 0x1E, CHR 0x1F])"

definition py_strip :: "string \<Rightarrow> string" where
  "py_strip s = rev (dropWhile is_space (rev (dropWhile is_space s)))"

text \<open>\<open>sanitize_filename\<close>: each of \<open>< > : " / \ | ? *\<close>, line feed and carriage return
  becomes an underscore, then the ends are stripped.\<close>

definition sanitize_filename :: "string \<Rightarrow> string" where
  "sanitize_filename filename =
     py_strip (map (\<lambda>c. if c \<in> set [CHR 0x3C, CHR 0x3E, CHR 0x3A, CHR 0x22, CHR 0x2F, CHR 0x5C,
                                      CHR 0x7C, CHR 0x3F, CHR 0x2A, CHR 0x0A, CHR 0x0D]
                         then CHR 0x5F else c) filename)"

text \<open>\<open>S3Operations.file_exists\<close>: \<open>True\<close> when \<open>head_object\<close> finds the key, \<open>False\<close>
  on \<open>ClientError\<close>; the bucket answers for the keys it holds.\<close>

definition file_exists :: "world \<Rightarrow> string \<Rightarrow> bool" where
  "file_exists w s3_key = (s3_key \<in> set (w_s3 w))"

text \<open>\<open>S3Operations.upload_file\<close>: only \<open>ClientError\<close> is caught. boto3 raises on a
  \<open>local_path\<close> that is \<open>None\<close>.\<close>

definition upload_file :: "'d env \<Rightarrow> world \<Rightarrow> string option \<Rightarrow> string \<Rightarrow> error + (world \<times> bool)" where
  "upload_file env w local_path s3_key =
     (case local_path of
        None \<Rightarrow> Inl UploadError
      | Some p \<Rightarrow>
          (case upload_outcome env s3_key of
             Uploaded \<Rightarrow> Inr (w\<lparr>w_s3 := s3_key # w_s3 w\<rparr>, True)
           | Client_error \<Rightarrow> Inr (w, False)
           | Other_exception \<Rightarrow> Inl UploadError))"

text \<open>\<open>generate_pdf\<close> and \<open>generate_html\<close>: the path of the file written, or \<open>None\<close>
  when writing raises; both sanitise the file name once more, and \<open>os.path.join\<close> of a
  directory and such a name puts a slash between them.\<close>

definition generate_pdf :: "'d env \<Rightarrow> world \<Rightarrow> string \<Rightarrow> world \<times> string option" where
  "generate_pdf env w filename =
     (let local_path = pdf_dir env @ ''/'' @ sanitize_filename filename in
      if pdf_written env then (w\<lparr>w_files := local_path # w_files w\<rparr>, Some local_path)
      else (w, None))"

definition generate_html :: "'d env \<Rightarrow> world \<Rightarrow> string \<Rightarrow> world \<times> string option" where
  "generate_html env w filename =
     (let local_path = html_dir env @ ''/'' @ sanitize_filename filename in
      if html_written env then (w\<lparr>w_files := local_path # w_files w\<rparr>, Some local_path)
      else (w, None))"

text \<open>\<open>os.remove\<close>\<close>

definition os_remove :: "world \<Rightarrow> string option \<Rightarrow> error + world" where
  "os_remove w path =
     (case path of
        None \<Rightarrow> Inl OSError
      | Some p \<Rightarrow> if p \<in> set (w_files w) then Inr (w\<lparr>w_files := removeAll p (w_files w)\<rparr>)
                  else Inl OSError)"

text \<open>
  The second \<open>if self.use_s3\<close> block of \<open>process_standard\<close>: the two uploads, the update
  of the table, the removal of the local files. \<open>Inl\<close> is an exception on its way to the
  \<open>except\<close> clause, with the world as it then is.
\<close>

definition upload_and_record ::
  "'d env \<Rightarrow> world \<Rightarrow> pyval \<Rightarrow> string \<Rightarrow> string \<Rightarrow> string option \<Rightarrow> string option \<Rightarrow>
   (world \<times> error) + (world \<times> bool)" where
  "upload_and_record env w url pdf_filename html_filename pdf_path html_path =
     (case upload_file env w pdf_path (s3_prefix @ ''PDF/'' @ pdf_filename) of
        Inl e \<Rightarrow> Inl (w, e)
      | Inr (w1, pdf_ok) \<Rightarrow>
          if pdf_ok then
            (case upload_file env w1 html_path (s3_prefix @ ''HTML/'' @ html_filename) of
               Inl e \<Rightarrow> Inl (w1, e)
             | Inr (w2, html_ok) \<Rightarrow>
                 if html_ok then
                   (let w3 = w2\<lparr>w_db := fst (update_s3_paths (update_exc env) (w_db w2) url
                                                pdf_filename html_filename)\<rparr> in
                    case os_remove w3 pdf_path of
                      Inl e \<Rightarrow> Inl (w3, e)
                    | Inr w4 \<Rightarrow>
                        (case os_remove w4 html_path of
                           Inl e \<Rightarrow> Inl (w4, e)
                         | Inr w5 \<Rightarrow> Inr (w5, True)))
                 else Inr (w2, False))
          else Inr (w1, False))"

text \<open>\<open>process_standard\<close>: the world afterwards and the boolean returned.\<close>

definition process_standard :: "'d env \<Rightarrow> world \<Rightarrow> entry \<Rightarrow> world \<times> bool" where
  "process_standard env w row =
     (let url = e_title_link row;
          pdf_filename = sanitize_filename (e_pdf_filename row);
          html_filename = sanitize_filename (e_html_filename row)
      in
      if use_s3 env \<and> file_exists w (s3_prefix @ ''PDF/'' @ pdf_filename)
                    \<and> file_exists w (s3_prefix @ ''HTML/'' @ html_filename)
      then (w\<lparr>w_db := fst (update_s3_paths (update_exc env) (w_db w) url pdf_filename html_filename)\<rparr>,
            True)
      else case extract_detailed_data env url row of
        None \<Rightarrow> (w, False)
      | Some data \<Rightarrow>
          (let (w1, pdf_path) = generate_pdf env w pdf_filename;
               (w2, html_path) = generate_html env w1 html_filename
           in
           if use_s3 env then
             (case upload_and_record env w2 url pdf_filename html_filename pdf_path html_path of
                Inl (w', e) \<Rightarrow> (w', False)
              | Inr res \<Rightarrow> res)
           else (w2, True)))"

section \<open>Notions used in the statements\<close>

text \<open>A cell whose first \<open>a\<close> element, if it has one, carries an \<open>href\<close>: on such a
  cell the subscript \<open>a_tag["href"]\<close> does not raise.\<close>

definition href_ok :: "td \<Rightarrow> bool" where
  "href_ok c = (case td_a c of None \<Rightarrow> True | Some a \<Rightarrow> a_href a \<noteq> None)"

text \<open>The title cell of a row is its 7th cell in a row of 7 or more and its 3rd in a row
  of 3; rows of other sizes have none.\<close>

definition tr_ok :: "tr \<Rightarrow> bool" where
  "tr_ok tds = (if length tds \<ge> 7 then href_ok (tds ! 6)
                else if length tds = 3 then href_ok (tds ! 2) else True)"

text \<open>A row that the header logic lets through: with the header template as it stands,
  the row is neither taken as the header nor equal to it.\<close>

definition data_row :: "string list option \<Rightarrow> tr \<Rightarrow> bool" where
  "data_row header_template tds =
     (\<not> detects_header header_template (map td_text tds) \<and>
      \<not> matches_header header_template (map td_text tds))"


text \<open>A row that yields one record whatever precedes it, as long as no header has been
  detected: 3 cells or at least 7, no cell text containing \<open>Date\<close>, a title cell that
  does not raise.\<close>

definition record_row :: "tr \<Rightarrow> bool" where
  "record_row tds =
     ((length tds \<ge> 7 \<or> length tds = 3) \<and>
      \<not> list_ex (\<lambda>txt. sublist ''Date'' txt) (map td_text tds) \<and> tr_ok tds)"

text \<open>The records the page at the current offset yields: those \<open>extract_table_rows\<close>
  returns, and none when the fetch or the extraction raises.\<close>

definition page_records ::
  "(nat \<Rightarrow> error + soup) \<Rightarrow> (string \<Rightarrow> string \<Rightarrow> string) \<Rightarrow> string \<Rightarrow> crawl \<Rightarrow> row list" where
  "page_records fetch_page urljoin base st =
     (case fetch_page (c_start st) of
        Inl e \<Rightarrow> []
      | Inr soup \<Rightarrow>
          (case extract_table_rows urljoin base soup (c_header st) of
             Inl e \<Rightarrow> []
           | Inr (page_rows, header_template) \<Rightarrow> page_rows))"

text \<open>A listing that holds the rows \<open>recs\<close> and serves, at the 1-based offset \<open>start\<close>,
  a table of the next 500 of them.\<close>

definition paged_source :: "tr list \<Rightarrow> nat \<Rightarrow> error + soup" where
  "paged_source recs start = Inr (Some (take 500 (drop (start - 1) recs)))"

text \<open>An absolute URL begins with a scheme: a non-empty run of characters other than
  \<open>:\<close>, \<open>/\<close>, \<open>?\<close> and \<open>#\<close>, followed by a colon.\<close>

definition is_absolute_url :: "string \<Rightarrow> bool" where
  "is_absolute_url s =
     (let scheme = takeWhile (\<lambda>c. c \<notin> set [CHR 0x3A, CHR 0x2F, CHR 0x3F, CHR 0x23]) s
      in scheme \<noteq> [] \<and> take 1 (drop (length scheme) s) = [CHR 0x3A])"

text \<open>The shape of a \<open>title_link\<close>: the empty string, or \<open>urljoin\<close> applied to the
  base URL and some \<open>href\<close>.\<close>

definition link_shape :: "(string \<Rightarrow> string \<Rightarrow> string) \<Rightarrow> string \<Rightarrow> row \<Rightarrow> bool" where
  "link_shape urljoin base r =
     (get_col r ''title_link'' = Str '''' \<or> (\<exists>h. get_col r ''title_link'' = Str (urljoin base h)))"

text \<open>The rows the \<open>WHERE\<close> clause of \<open>update_s3_paths\<close> selects for a given URL.\<close>

definition links_to :: "pyval \<Rightarrow> row \<Rightarrow> bool" where
  "links_to title_link r = sql_eq (get_col r ''title_link'') title_link"

text \<open>The two S3 keys \<open>process_standard\<close> computes for an entry.\<close>

definition pdf_key :: "entry \<Rightarrow> string" where
  "pdf_key row = s3_prefix @ ''PDF/'' @ sanitize_filename (e_pdf_filename row)"

definition html_key :: "entry \<Rightarrow> string" where
  "html_key row = s3_prefix @ ''HTML/'' @ sanitize_filename (e_html_filename row)"

text \<open>Both artifacts of the entry are in the bucket already.\<close>

definition already_stored :: "world \<Rightarrow> entry \<Rightarrow> bool" where
  "already_stored w row = (file_exists w (pdf_key row) \<and> file_exists w (html_key row))"

text \<open>The upload of an artifact succeeds: its file is rendered and boto3 returns.\<close>

definition pdf_uploaded :: "'d env \<Rightarrow> entry \<Rightarrow> bool" where
  "pdf_uploaded env row = (pdf_written env \<and> upload_outcome env (pdf_key row) = Uploaded)"

definition html_uploaded :: "'d env \<Rightarrow> entry \<Rightarrow> bool" where
  "html_uploaded env row = (html_written env \<and> upload_outcome env (html_key row) = Uploaded)"

text \<open>The table after the call \<open>update_s3_paths(url, pdf_filename, html_filename)\<close> that
  \<open>process_standard\<close> makes for the entry.\<close>

definition recorded :: "'d env \<Rightarrow> world \<Rightarrow> entry \<Rightarrow> table" where
  "recorded env w row =
     fst (update_s3_paths (update_exc env) (w_db w) (e_title_link row)
            (sanitize_filename (e_pdf_filename row)) (sanitize_filename (e_html_filename row)))"

text \<open>The world the upload block leaves, and the boolean it makes \<open>process_standard\<close>
  return (\<open>False\<close> when it raises).\<close>

definition block_world :: "(world \<times> error) + (world \<times> bool) \<Rightarrow> world" where
  "block_world x = (case x of Inl (w, e) \<Rightarrow> w | Inr (w, ok) \<Rightarrow> w)"

definition block_ok :: "(world \<times> error) + (world \<times> bool) \<Rightarrow> bool" where
  "block_ok x = (case x of Inl (w, e) \<Rightarrow> False | Inr (w, ok) \<Rightarrow> ok)"

text \<open>The world once \<open>generate_pdf\<close> and \<open>generate_html\<close> have run for the entry, and
  the paths of the two local files.\<close>

definition rendered :: "'d env \<Rightarrow> world \<Rightarrow> entry \<Rightarrow> world" where
  "rendered env w row =
     fst (generate_html env (fst (generate_pdf env w (sanitize_filename (e_pdf_filename row))))
            (sanitize_filename (e_html_filename row)))"

definition pdf_local :: "'d env \<Rightarrow> entry \<Rightarrow> string" where
  "pdf_local env row = pdf_dir env @ ''/'' @ sanitize_filename (sanitize_filename (e_pdf_filename row))"

definition html_local :: "'d env \<Rightarrow> entry \<Rightarrow> string" where
  "html_local env row = html_dir env @ ''/'' @ sanitize_filename (sanitize_filename (e_html_filename row))"

section \<open>Example inputs\<close>

text \<open>Instances of the library parameters for the closed examples below. The examples
  do not depend on the choice: \<open>join_example\<close> stands where \<open>urljoin\<close> does,
  \<open>hash_example\<close> where the MD5 digest does, \<open>iso_example\<close> where the date conversion
  does.\<close>

definition join_example :: "string \<Rightarrow> string \<Rightarrow> string" where
  "join_example b h = b @ h"

definition hash_example :: "string \<Rightarrow> string" where
  "hash_example s = s"

definition iso_example :: "pyval \<Rightarrow> pyval" where
  "iso_example v = v"

definition base_example :: string where
  "base_example = ''https://listing.example/results.cfm''"

definition plain_td :: "string \<Rightarrow> td" where
  "plain_td s = \<lparr>td_text = s, td_a = None\<rparr>"

definition link_td :: "string \<Rightarrow> string \<Rightarrow> td" where
  "link_td s h = \<lparr>td_text = s, td_a = Some \<lparr>a_text = s, a_href = Some h\<rparr>\<rparr>"

text \<open>A row of 7 cells with a link in the title cell, one of 7 cells without, and rows
  of 3 cells with and without.\<close>

definition full_example :: tr where
  "full_example =
     [plain_td ''12/23/2019'', plain_td ''Anesthesiology'', plain_td ''1-140'',
      plain_td ''Complete'', plain_td ''ISO'', plain_td ''5360 Third edition 2016'',
      link_td ''Anaesthetic vaporizers'' ''?id=1'']"

definition full_nolink_example :: tr where
  "full_nolink_example =
     [plain_td ''12/23/2019'', plain_td ''Anesthesiology'', plain_td ''1-140'',
      plain_td ''Complete'', plain_td ''ISO'', plain_td ''5360 Third edition 2016'',
      plain_td ''Anaesthetic vaporizers'']"

definition cont_example :: tr where
  "cont_example =
     [plain_td ''ANSI AAMI'', plain_td ''5360:2016'', link_td ''Agent-specific filling systems'' ''?id=2'']"

definition cont_nolink_example :: tr where
  "cont_nolink_example =
     [plain_td ''ANSI AAMI'', plain_td ''5360:2016'', plain_td ''Agent-specific filling systems'']"

text \<open>A header row written with \<open>td\<close> cells.\<close>

definition header_example :: tr where
  "header_example =
     [plain_td ''Date of Entry'', plain_td ''Specialty Task Group Area'',
      plain_td ''Recognition Number'', plain_td ''Extent of Recognition'',
      plain_td ''Standards Developing Organization'',
      plain_td ''Standard Designation Number and Date'', plain_td ''Title of Standard'']"

text \<open>A row of 7 cells whose title contains the word \<open>Date\<close>.\<close>

definition full_date_example :: tr where
  "full_date_example =
     [plain_td ''01/14/2019'', plain_td ''Software'', plain_td ''13-110'',
      plain_td ''Complete'', plain_td ''ISO'', plain_td ''8601-1 First edition 2019'',
      plain_td ''Date and time - Representations for information interchange'']"

text \<open>Two records with one natural key and different titles; a frame without the
  designation column.\<close>

definition two_same_key :: dataframe where
  "two_same_key =
     \<lparr>df_columns = [''recognition_number'', ''standards_developing_organization'',
                    ''standard_designation_number_and_date'', ''standard_title''],
      df_rows =
        [[(''recognition_number'', Str ''1-140''), (''standards_developing_organization'', Str ''ISO''),
          (''standard_designation_number_and_date'', Str ''5360''), (''standard_title'', Str ''A'')],
         [(''recognition_number'', Str ''1-140''), (''standards_developing_organization'', Str ''ISO''),
          (''standard_designation_number_and_date'', Str ''5360''), (''standard_title'', Str ''B'')]]\<rparr>"

definition no_designation :: dataframe where
  "no_designation =
     \<lparr>df_columns = [''recognition_number'', ''standards_developing_organization'', ''standard_title''],
      df_rows =
        [[(''recognition_number'', Str ''1-140''), (''standards_developing_organization'', Str ''ISO''),
          (''standard_title'', Str ''A'')]]\<rparr>"

text \<open>A catalog of three rows, two of which share a \<open>title_link\<close>, none with artifacts;
  an entry with that link; a world with an empty bucket and no local files.\<close>

definition entry_example :: entry where
  "entry_example =
     \<lparr>e_title_link = Str ''https://listing.example/detail.cfm?id=1'',
      e_pdf_filename = ''1-140_Anaesthetic_vaporizers.pdf'',
      e_html_filename = ''1-140_Anaesthetic_vaporizers.html''\<rparr>"

definition catalog_example :: table where
  "catalog_example =
     [[(''unique_id'', Str ''a''), (''title_link'', Str ''https://listing.example/detail.cfm?id=1''),
       (''aws_key'', NoneV), (''aws_html_key'', NoneV)],
      [(''unique_id'', Str ''b''), (''title_link'', Str ''https://listing.example/detail.cfm?id=1''),
       (''aws_key'', NoneV), (''aws_html_key'', NoneV)],
      [(''unique_id'', Str ''c''), (''title_link'', Str ''https://listing.example/detail.cfm?id=3''),
       (''aws_key'', NoneV), (''aws_html_key'', NoneV)]]"

definition world_example :: world where
  "world_example = \<lparr>w_db = catalog_example, w_s3 = [], w_files = []\<rparr>"

text \<open>An environment in which the PDF upload of the entry succeeds and every other upload
  ends in \<open>ClientError\<close>, and one in which every upload succeeds.\<close>

definition env_html_fails :: "unit env" where
  "env_html_fails =
     \<lparr>use_s3 = True, extract_detailed_data = (\<lambda>url row. Some ()), pdf_written = True,
      html_written = True,
      upload_outcome = (\<lambda>k. if k = pdf_key entry_example then Uploaded else Client_error),
      update_exc = None, pdf_dir = ''pdfs'', html_dir = ''htmls''\<rparr>"

definition env_uploads :: "unit env" where
  "env_uploads =
     \<lparr>use_s3 = True, extract_detailed_data = (\<lambda>url row. Some ()), pdf_written = True,
      html_written = True, upload_outcome = (\<lambda>k. Uploaded),
      update_exc = None, pdf_dir = ''pdfs'', html_dir = ''htmls''\<rparr>"

section \<open>Properties of rows and frames\<close>

lemma map_of_replace_same:
  "c \<in> fst ` set r \<Longrightarrow>
   map_of (map (\<lambda>(k, w). if k = c then (k, v) else (k, w)) r) c = Some v"
proof (induction r)
  case Nil
  then show ?case by simp
next
  case (Cons p r)
  obtain k w where p: "p = (k, w)" by (cases p)
  show ?case
  proof (cases "k = c")
    case True
    then show ?thesis by (simp add: p)
  next
    case False
    then have "c \<in> fst ` set r" using Cons.prems by (simp add: p)
    then show ?thesis using Cons.IH False by (simp add: p)
  qed
qed

lemma map_of_replace_other:
  "c' \<noteq> c \<Longrightarrow>
   map_of (map (\<lambda>(k, w). if k = c then (k, v) else (k, w)) r) c' = map_of r c'"
  by (induction r) auto

lemma get_col_set_col_same: "get_col (set_col c v r) c = v"
proof (cases "c \<in> fst ` set r")
  case True
  then show ?thesis by (simp add: get_col_def set_col_def map_of_replace_same)
next
  case False
  then have "map_of r c = None" by (simp add: map_of_eq_None_iff)
  with False show ?thesis by (simp add: get_col_def set_col_def map_add_def)
qed

lemma get_col_set_col_other:
  assumes "c' \<noteq> c"
  shows "get_col (set_col c v r) c' = get_col r c'"
proof (cases "c \<in> fst ` set r")
  case True
  then show ?thesis using assms by (simp add: get_col_def set_col_def map_of_replace_other)
next
  case False
  then show ?thesis using assms
    by (simp add: get_col_def set_col_def map_add_def split: option.splits)
qed


lemma to_frame_rows:
  "df_rows (to_frame cols rs) =
     map (\<lambda>r. map (\<lambda>c. (c, Str (py_str (if isna (get_col r c) then Str '''' else get_col r c)))) cols) rs"
  by (simp add: to_frame_def astype_str_def fillna_def make_dataframe_def comp_def)


lemma to_frame_length: "length (df_rows (to_frame cols rs)) = length rs"
  by (simp add: to_frame_rows)


section \<open>Properties of the row reconstruction\<close>

lemma link_of_ok:
  "href_ok c \<Longrightarrow> \<exists>l. link_of urljoin base (td_a c) = Inr l"
  by (auto simp: href_ok_def link_of_def split: option.splits)

lemma link_of_cases:
  "link_of urljoin base a = Inr l \<Longrightarrow>
     (a = None \<and> l = '''') \<or> (\<exists>t h. a = Some t \<and> a_href t = Some h \<and> l = urljoin base h)"
  by (auto simp: link_of_def split: option.splits)

lemma anchor_without_href_raises:
  "link_of urljoin base (Some \<lparr>a_text = t, a_href = None\<rparr>) = Inl KeyError"
  by (simp add: link_of_def)

lemma full_row_fields:
  assumes "full_row urljoin base tds = Inr r"
  shows "get_col r ''date_of_entry'' = Str (map td_text tds ! 0)"
    and "get_col r ''specialty_task_group_area'' = Str (map td_text tds ! 1)"
    and "get_col r ''recognition_number'' = Str (map td_text tds ! 2)"
    and "get_col r ''extent_of_recognition'' = Str (map td_text tds ! 3)"
    and "get_col r ''standards_developing_organization'' = Str (map td_text tds ! 4)"
    and "get_col r ''standard_designation_number_and_date'' = Str (map td_text tds ! 5)"
    and "get_col r ''standard_title'' = Str (title_of (td_a (tds ! 6)) (map td_text tds ! 6))"
    and "\<exists>l. link_of urljoin base (td_a (tds ! 6)) = Inr l \<and> get_col r ''title_link'' = Str l"
  using assms by (auto simp: full_row_def Let_def get_col_def split: sum.splits)

lemma continuation_row_fields:
  assumes "continuation_row urljoin base carry tds = Inr r"
  shows "get_col r ''date_of_entry'' = carry ! 0"
    and "get_col r ''specialty_task_group_area'' = carry ! 1"
    and "get_col r ''recognition_number'' = carry ! 2"
    and "get_col r ''extent_of_recognition'' = carry ! 3"
    and "get_col r ''standards_developing_organization'' = Str (map td_text tds ! 0)"
    and "get_col r ''standard_designation_number_and_date'' = Str (map td_text tds ! 1)"
    and "get_col r ''standard_title'' = Str (title_of (td_a (tds ! 2)) (map td_text tds ! 2))"
    and "\<exists>l. link_of urljoin base (td_a (tds ! 2)) = Inr l \<and> get_col r ''title_link'' = Str l"
  using assms by (auto simp: continuation_row_def Let_def get_col_def split: sum.splits)

lemma full_row_ok: "href_ok (tds ! 6) \<Longrightarrow> \<exists>r. full_row urljoin base tds = Inr r"
  using link_of_ok[of "tds ! 6" urljoin base] by (auto simp: full_row_def Let_def)

lemma continuation_row_ok: "href_ok (tds ! 2) \<Longrightarrow> \<exists>r. continuation_row urljoin base carry tds = Inr r"
  using link_of_ok[of "tds ! 2" urljoin base] by (auto simp: continuation_row_def Let_def)

lemma loop_full:
  assumes "length tds \<ge> 7" "data_row ht tds" "full_row urljoin base tds = Inr r"
  shows "extract_rows_loop urljoin base (tds # trs) rows carry ht =
         extract_rows_loop urljoin base trs (rows @ [r]) (map Str (take 4 (map td_text tds))) ht"
  using assms by (auto simp: data_row_def)

lemma loop_cont:
  assumes "length tds = 3" "data_row ht tds" "continuation_row urljoin base carry tds = Inr r"
  shows "extract_rows_loop urljoin base (tds # trs) rows carry ht =
         extract_rows_loop urljoin base trs (rows @ [r]) carry ht"
  using assms by (auto simp: data_row_def)



lemma full_row_link:
  assumes "full_row urljoin base tds = Inr r"
  shows "(td_a (tds ! 6) = None \<and> get_col r ''title_link'' = Str '''') \<or>
         (\<exists>a h. td_a (tds ! 6) = Some a \<and> a_href a = Some h \<and>
                get_col r ''title_link'' = Str (urljoin base h))"
  using full_row_fields(8)[OF assms] link_of_cases by fastforce

lemma continuation_row_link:
  assumes "continuation_row urljoin base carry tds = Inr r"
  shows "(td_a (tds ! 2) = None \<and> get_col r ''title_link'' = Str '''') \<or>
         (\<exists>a h. td_a (tds ! 2) = Some a \<and> a_href a = Some h \<and>
                get_col r ''title_link'' = Str (urljoin base h))"
  using continuation_row_fields(8)[OF assms] link_of_cases by fastforce

lemma loop_links:
  "extract_rows_loop urljoin base trs rows carry ht = Inr (out, ht') \<Longrightarrow>
   list_all (link_shape urljoin base) rows \<Longrightarrow> list_all (link_shape urljoin base) out"
proof (induction trs arbitrary: rows carry ht)
  case Nil
  then show ?case by simp
next
  case (Cons tds trs)
  show ?case
  proof (cases "tds \<noteq> [] \<and> data_row ht tds \<and> (length tds \<ge> 7 \<or> length tds = 3)")
    case False
    then have "extract_rows_loop urljoin base (tds # trs) rows carry ht =
        extract_rows_loop urljoin base trs rows carry ht \<or>
      extract_rows_loop urljoin base (tds # trs) rows carry ht =
        extract_rows_loop urljoin base trs rows carry (Some (map td_text tds))"
      by (auto simp: data_row_def)
    then show ?thesis using Cons.IH Cons.prems by metis
  next
    case True
    then have dr: "data_row ht tds" by simp
    from True consider (full) "length tds \<ge> 7" | (cont) "length tds = 3" by blast
    then show ?thesis
    proof cases
      case full
      show ?thesis
      proof (cases "full_row urljoin base tds")
        case (Inl e)
        then have "extract_rows_loop urljoin base (tds # trs) rows carry ht = Inl e"
          using full dr by (auto simp: data_row_def)
        then show ?thesis using Cons.prems(1) by simp
      next
        case (Inr r)
        have "link_shape urljoin base r"
          using full_row_link[OF Inr] unfolding link_shape_def by blast
        then have "list_all (link_shape urljoin base) (rows @ [r])"
          using Cons.prems(2) by simp
        then show ?thesis
          using Cons.IH Cons.prems(1) unfolding loop_full[OF full dr Inr] by blast
      qed
    next
      case cont
      show ?thesis
      proof (cases "continuation_row urljoin base carry tds")
        case (Inl e)
        then have "extract_rows_loop urljoin base (tds # trs) rows carry ht = Inl e"
          using cont dr by (auto simp: data_row_def)
        then show ?thesis using Cons.prems(1) by simp
      next
        case (Inr r)
        have "link_shape urljoin base r"
          using continuation_row_link[OF Inr] unfolding link_shape_def by blast
        then have "list_all (link_shape urljoin base) (rows @ [r])"
          using Cons.prems(2) by simp
        then show ?thesis
          using Cons.IH Cons.prems(1) unfolding loop_cont[OF cont dr Inr] by blast
      qed
    qed
  qed
qed

lemma table_links:
  assumes "extract_table_rows urljoin base soup ht = Inr (out, ht')"
  shows "list_all (link_shape urljoin base) out"
proof (cases soup)
  case None
  then show ?thesis using assms by (simp add: extract_table_rows_def)
next
  case (Some trs)
  then have "extract_rows_loop urljoin base trs [] [NoneV, NoneV, NoneV, NoneV] ht = Inr (out, ht')"
    using assms by (simp add: extract_table_rows_def)
  from loop_links[OF this] show ?thesis by simp
qed

lemma record_row_data: "record_row tds \<Longrightarrow> data_row None tds"
  by (simp add: record_row_def data_row_def detects_header_def matches_header_def)

lemma loop_record_rows:
  "list_all record_row trs \<Longrightarrow>
     \<exists>out. extract_rows_loop urljoin base trs rows carry None = Inr (rows @ out, None) \<and>
           length out = length trs"
proof (induction trs arbitrary: rows carry)
  case Nil
  then show ?case by simp
next
  case (Cons tds trs)
  have rr: "record_row tds" and rest: "list_all record_row trs" using Cons.prems by simp_all
  have dr: "data_row None tds" using rr by (rule record_row_data)
  from rr consider (full) "length tds \<ge> 7" "href_ok (tds ! 6)" | (cont) "length tds = 3" "href_ok (tds ! 2)"
    by (auto simp: record_row_def tr_ok_def split: if_splits)
  then show ?case
  proof cases
    case full
    obtain r where r: "full_row urljoin base tds = Inr r" using full_row_ok[OF full(2)] by blast
    obtain out where "extract_rows_loop urljoin base trs (rows @ [r])
        (map Str (take 4 (map td_text tds))) None = Inr ((rows @ [r]) @ out, None)"
      "length out = length trs"
      using Cons.IH[OF rest] by blast
    then show ?thesis unfolding loop_full[OF full(1) dr r]
      by (intro exI[of _ "r # out"]) simp
  next
    case cont
    obtain r where r: "continuation_row urljoin base carry tds = Inr r"
      using continuation_row_ok[OF cont(2)] by blast
    obtain out where "extract_rows_loop urljoin base trs (rows @ [r]) carry None
         = Inr ((rows @ [r]) @ out, None)"
      "length out = length trs"
      using Cons.IH[OF rest] by blast
    then show ?thesis unfolding loop_cont[OF cont(1) dr r]
      by (intro exI[of _ "r # out"]) simp
  qed
qed

lemma page_of_records:
  assumes "list_all record_row recs"
  shows "\<exists>out. extract_table_rows urljoin base (Some (take 500 (drop k recs))) None = Inr (out, None) \<and>
               length out = min 500 (length recs - k)"
proof -
  have "list_all record_row (take 500 (drop k recs))"
    using assms unfolding list_all_iff by (meson in_set_dropD in_set_takeD)
  from loop_record_rows[OF this, of urljoin base "[]" "[NoneV, NoneV, NoneV, NoneV]"]
  show ?thesis by (auto simp: extract_table_rows_def)
qed

text \<open>
  Claim C2, as amended. A table of one row of at least 7 cells followed by one row of
  exactly 3 cells yields exactly two records, in row order, and the second record's
  \<open>date_of_entry\<close>, \<open>specialty_task_group_area\<close>, \<open>recognition_number\<close> and
  \<open>extent_of_recognition\<close> are the texts of the first four cells of the first row,
  provided that the header logic lets both rows through and that the \<open>a\<close> element of each
  title cell, if there is one, has an \<open>href\<close>.
\<close>

theorem full_then_continuation:
  assumes "length full \<ge> 7" and "length cont = 3"
    and "data_row ht full" and "data_row ht cont"
    and "href_ok (full ! 6)" and "href_ok (cont ! 2)"
  shows "\<exists>r1 r2.
      extract_table_rows urljoin base (Some [full, cont]) ht = Inr ([r1, r2], ht) \<and>
      full_row urljoin base full = Inr r1 \<and>
      get_col r1 ''date_of_entry'' = Str (td_text (full ! 0)) \<and>
      get_col r1 ''specialty_task_group_area'' = Str (td_text (full ! 1)) \<and>
      get_col r1 ''recognition_number'' = Str (td_text (full ! 2)) \<and>
      get_col r1 ''extent_of_recognition'' = Str (td_text (full ! 3)) \<and>
      get_col r2 ''date_of_entry'' = Str (td_text (full ! 0)) \<and>
      get_col r2 ''specialty_task_group_area'' = Str (td_text (full ! 1)) \<and>
      get_col r2 ''recognition_number'' = Str (td_text (full ! 2)) \<and>
      get_col r2 ''extent_of_recognition'' = Str (td_text (full ! 3)) \<and>
      get_col r2 ''standards_developing_organization'' = Str (td_text (cont ! 0)) \<and>
      get_col r2 ''standard_designation_number_and_date'' = Str (td_text (cont ! 1)) \<and>
      get_col r2 ''standard_title'' = Str (title_of (td_a (cont ! 2)) (td_text (cont ! 2)))"
proof -
  let ?carry = "map Str (take 4 (map td_text full))"
  obtain r1 where r1: "full_row urljoin base full = Inr r1"
    using full_row_ok[OF assms(5)] by blast
  obtain r2 where r2: "continuation_row urljoin base ?carry cont = Inr r2"
    using continuation_row_ok[OF assms(6)] by blast
  have run: "extract_table_rows urljoin base (Some [full, cont]) ht = Inr ([r1, r2], ht)"
    unfolding extract_table_rows_def option.case
      loop_full[OF assms(1) assms(3) r1] loop_cont[OF assms(2) assms(4) r2]
    by simp
  have c: "?carry ! 0 = Str (td_text (full ! 0))" "?carry ! 1 = Str (td_text (full ! 1))"
    "?carry ! 2 = Str (td_text (full ! 2))" "?carry ! 3 = Str (td_text (full ! 3))"
    using assms(1) by (simp_all del: length_greater_0_conv)
  have f: "map td_text full ! 0 = td_text (full ! 0)" "map td_text full ! 1 = td_text (full ! 1)"
    "map td_text full ! 2 = td_text (full ! 2)" "map td_text full ! 3 = td_text (full ! 3)"
    using assms(1) by (simp_all del: length_greater_0_conv)
  have g: "map td_text cont ! 0 = td_text (cont ! 0)" "map td_text cont ! 1 = td_text (cont ! 1)"
    "map td_text cont ! 2 = td_text (cont ! 2)"
    using assms(2) by (simp_all del: length_greater_0_conv)
  show ?thesis
    using run r1 full_row_fields(1-4)[OF r1] continuation_row_fields(1-7)[OF r2]
    unfolding c f g by blast
qed

text \<open>The theorem at the example rows, with no header template.\<close>

theorem full_then_continuation_witness:
  "length full_example \<ge> 7 \<and> length cont_example = 3 \<and>
   data_row None full_example \<and> data_row None cont_example \<and>
   href_ok (full_example ! 6) \<and> href_ok (cont_example ! 2) \<and>
   (\<exists>r1 r2.
      extract_table_rows join_example base_example (Some [full_example, cont_example]) None
        = Inr ([r1, r2], None) \<and>
      get_col r2 ''date_of_entry'' = Str ''12/23/2019'' \<and>
      get_col r2 ''specialty_task_group_area'' = Str ''Anesthesiology'' \<and>
      get_col r2 ''recognition_number'' = Str ''1-140'' \<and>
      get_col r2 ''extent_of_recognition'' = Str ''Complete'')"
proof -
  have h1: "length full_example \<ge> 7" and h2: "length cont_example = 3"
    by (simp_all add: full_example_def cont_example_def)
  have h3: "data_row None full_example" and h4: "data_row None cont_example"
    by (simp_all add: data_row_def detects_header_def matches_header_def full_example_def
        cont_example_def plain_td_def link_td_def sublist_code prefix_code)
  have h5: "href_ok (full_example ! 6)" and h6: "href_ok (cont_example ! 2)"
    by (simp_all add: href_ok_def full_example_def cont_example_def link_td_def)
  have t: "td_text (full_example ! 0) = ''12/23/2019''"
    "td_text (full_example ! 1) = ''Anesthesiology''"
    "td_text (full_example ! 2) = ''1-140''"
    "td_text (full_example ! 3) = ''Complete''"
    by (simp_all add: full_example_def plain_td_def)
  from full_then_continuation[OF h1 h2 h3 h4 h5 h6, of join_example base_example]
  show ?thesis using h1 h2 h3 h4 h5 h6 unfolding t by blast
qed

text \<open>
  Without the proviso the statement fails: while no header template has been detected, a
  row of 7 cells with \<open>Date\<close> in one of its texts is taken as the header template and
  skipped, so the table yields one record, whose four carried values are \<open>None\<close>.
\<close>

theorem full_row_taken_as_header:
  "length full_date_example \<ge> 7 \<and> length cont_nolink_example = 3 \<and>
   extract_table_rows join_example base_example (Some [full_date_example, cont_nolink_example]) None =
     Inr ([[(''date_of_entry'', NoneV), (''specialty_task_group_area'', NoneV),
            (''recognition_number'', NoneV), (''extent_of_recognition'', NoneV),
            (''standards_developing_organization'', Str ''ANSI AAMI''),
            (''standard_designation_number_and_date'', Str ''5360:2016''),
            (''standard_title'', Str ''Agent-specific filling systems''),
            (''title_link'', Str '''')]],
          Some (map td_text full_date_example))"
  by (simp add: extract_table_rows_def detects_header_def matches_header_def continuation_row_def
      link_of_def title_of_def cont_nolink_example_def full_date_example_def plain_td_def
      sublist_code prefix_code)



text \<open>
  The same on an example, step by step: the dict \<open>extract_table_rows\<close> returns for the
  row carries \<open>None\<close>, as \<open>carry\<close> is initialised, and the frame built from it holds
  empty strings.
\<close>

lemma first_row_continuation_dict:
  "extract_table_rows join_example base_example (Some [header_example, cont_nolink_example]) None =
     Inr ([[(''date_of_entry'', NoneV), (''specialty_task_group_area'', NoneV),
            (''recognition_number'', NoneV), (''extent_of_recognition'', NoneV),
            (''standards_developing_organization'', Str ''ANSI AAMI''),
            (''standard_designation_number_and_date'', Str ''5360:2016''),
            (''standard_title'', Str ''Agent-specific filling systems''),
            (''title_link'', Str '''')]], Some (map td_text header_example))"
  by (simp add: extract_table_rows_def detects_header_def matches_header_def continuation_row_def
      link_of_def title_of_def cont_nolink_example_def header_example_def plain_td_def
      sublist_code prefix_code)

lemma first_row_continuation_frame:
  "df_rows (to_frame COLUMNS
      [[(''date_of_entry'', NoneV), (''specialty_task_group_area'', NoneV),
        (''recognition_number'', NoneV), (''extent_of_recognition'', NoneV),
        (''standards_developing_organization'', Str ''ANSI AAMI''),
        (''standard_designation_number_and_date'', Str ''5360:2016''),
        (''standard_title'', Str ''Agent-specific filling systems''),
        (''title_link'', Str '''')]]) =
     [[(''date_of_entry'', Str ''''), (''specialty_task_group_area'', Str ''''),
       (''recognition_number'', Str ''''), (''extent_of_recognition'', Str ''''),
       (''standards_developing_organization'', Str ''ANSI AAMI''),
       (''standard_designation_number_and_date'', Str ''5360:2016''),
       (''standard_title'', Str ''Agent-specific filling systems''),
       (''title_link'', Str '''')]]"
  by (simp add: to_frame_def astype_str_def fillna_def make_dataframe_def COLUMNS_def get_col_def)

text \<open>
  Claim C8, as amended. The \<open>title_link\<close> of a record is \<open>urljoin\<close> of the base URL
  and the \<open>href\<close> of the first \<open>a\<close> element of the title cell when the cell has one, and
  the empty string when it has none; this holds of a row of 7 or more cells, of a row of 3
  cells, and of every record \<open>extract_table_rows\<close> returns.
\<close>

theorem title_link_resolved_or_empty:
  "(full_row urljoin base tds = Inr r \<longrightarrow>
      (td_a (tds ! 6) = None \<and> get_col r ''title_link'' = Str '''') \<or>
      (\<exists>a h. td_a (tds ! 6) = Some a \<and> a_href a = Some h \<and>
             get_col r ''title_link'' = Str (urljoin base h))) \<and>
   (continuation_row urljoin base carry tds' = Inr r' \<longrightarrow>
      (td_a (tds' ! 2) = None \<and> get_col r' ''title_link'' = Str '''') \<or>
      (\<exists>a h. td_a (tds' ! 2) = Some a \<and> a_href a = Some h \<and>
             get_col r' ''title_link'' = Str (urljoin base h))) \<and>
   (extract_table_rows urljoin base soup ht = Inr (out, ht') \<longrightarrow>
      list_all (link_shape urljoin base) out)"
  using full_row_link continuation_row_link table_links by blast

text \<open>The theorem at the example row of 7 cells, whose title cell has a link.\<close>

theorem title_link_resolved_or_empty_witness:
  "full_row join_example base_example full_example =
     Inr [(''date_of_entry'', Str ''12/23/2019''),
          (''specialty_task_group_area'', Str ''Anesthesiology''),
          (''recognition_number'', Str ''1-140''),
          (''extent_of_recognition'', Str ''Complete''),
          (''standards_developing_organization'', Str ''ISO''),
          (''standard_designation_number_and_date'', Str ''5360 Third edition 2016''),
          (''standard_title'', Str ''Anaesthetic vaporizers''),
          (''title_link'', Str ''https://listing.example/results.cfm?id=1'')] \<and>
   (\<exists>a h. td_a (full_example ! 6) = Some a \<and> a_href a = Some h \<and>
      Str ''https://listing.example/results.cfm?id=1'' = Str (join_example base_example h))"
proof -
  define r :: row where "r = [(''date_of_entry'', Str ''12/23/2019''),
          (''specialty_task_group_area'', Str ''Anesthesiology''),
          (''recognition_number'', Str ''1-140''),
          (''extent_of_recognition'', Str ''Complete''),
          (''standards_developing_organization'', Str ''ISO''),
          (''standard_designation_number_and_date'', Str ''5360 Third edition 2016''),
          (''standard_title'', Str ''Anaesthetic vaporizers''),
          (''title_link'', Str ''https://listing.example/results.cfm?id=1'')]"
  define l where "l = Str ''https://listing.example/results.cfm?id=1''"
  have h: "full_row join_example base_example full_example = Inr r"
    by (simp add: r_def full_row_def link_of_def title_of_def full_example_def plain_td_def link_td_def
        join_example_def base_example_def)
  have g: "get_col r ''title_link'' = l"
    by (simp add: r_def l_def get_col_def)
  have n: "td_a (full_example ! 6) \<noteq> None"
    by (simp add: full_example_def link_td_def)
  from title_link_resolved_or_empty[of join_example base_example full_example r] h
  have "(td_a (full_example ! 6) = None \<and> get_col r ''title_link'' = Str '''') \<or>
      (\<exists>a h. td_a (full_example ! 6) = Some a \<and> a_href a = Some h \<and>
             get_col r ''title_link'' = Str (join_example base_example h))"
    by blast
  with n have "\<exists>a h. td_a (full_example ! 6) = Some a \<and> a_href a = Some h \<and>
             l = Str (join_example base_example h)"
    unfolding g by auto
  with h show ?thesis unfolding r_def l_def by auto
qed

text \<open>
  A row whose title cell has no \<open>a\<close> element yields a record whose \<open>title_link\<close> is the
  empty string, which is not an absolute URL.
\<close>

theorem title_link_empty_without_anchor:
  "extract_table_rows join_example base_example (Some [full_nolink_example]) None =
     Inr ([[(''date_of_entry'', Str ''12/23/2019''),
            (''specialty_task_group_area'', Str ''Anesthesiology''),
            (''recognition_number'', Str ''1-140''),
            (''extent_of_recognition'', Str ''Complete''),
            (''standards_developing_organization'', Str ''ISO''),
            (''standard_designation_number_and_date'', Str ''5360 Third edition 2016''),
            (''standard_title'', Str ''Anaesthetic vaporizers''),
            (''title_link'', Str '''')]], None) \<and>
   \<not> is_absolute_url ''''"
  by (simp add: extract_table_rows_def detects_header_def matches_header_def full_row_def
      link_of_def title_of_def full_nolink_example_def plain_td_def sublist_code prefix_code
      is_absolute_url_def)

section \<open>Properties of the crawl\<close>

lemma step_break:
  "(\<exists>st'. scrape_step fetch_page urljoin base st = Break st') \<longleftrightarrow>
     length (page_records fetch_page urljoin base st) < 500"
  by (auto simp: scrape_step_def page_records_def Let_def split: sum.splits prod.splits)

lemma step_break_rows:
  "scrape_step fetch_page urljoin base st = Break st' \<Longrightarrow>
     c_rows st' = c_rows st @ page_records fetch_page urljoin base st \<and>
     c_fetches st' = c_fetches st @ [c_start st]"
  by (auto simp: scrape_step_def page_records_def Let_def split: sum.splits prod.splits if_splits)

lemma step_continue_rows:
  "scrape_step fetch_page urljoin base st = Continue st' \<Longrightarrow>
     c_rows st' = c_rows st @ page_records fetch_page urljoin base st \<and>
     c_fetches st' = c_fetches st @ [c_start st] \<and> c_start st' = c_start st + 500"
  by (auto simp: scrape_step_def page_records_def Let_def split: sum.splits prod.splits if_splits)

lemma loop_break:
  "scrape_step fetch_page urljoin base st = Break st' \<Longrightarrow>
   scrape_loop fetch_page urljoin base st = Some st'"
  by (subst scrape_loop.simps) simp

lemma loop_continue:
  "scrape_step fetch_page urljoin base st = Continue st' \<Longrightarrow>
   scrape_loop fetch_page urljoin base st = scrape_loop fetch_page urljoin base st'"
  by (subst scrape_loop.simps) simp

lemma step_paged:
  assumes "list_all record_row recs" and "c_header st = None"
  shows "\<exists>out. length out = min 500 (length recs - (c_start st - 1)) \<and>
     page_records (paged_source recs) urljoin base st = out \<and>
     scrape_step (paged_source recs) urljoin base st =
       (if length out < 500
        then Break (st\<lparr>c_fetches := c_fetches st @ [c_start st], c_rows := c_rows st @ out\<rparr>)
        else Continue (st\<lparr>c_fetches := c_fetches st @ [c_start st], c_rows := c_rows st @ out,
                         c_start := c_start st + 500\<rparr>))"
proof -
  obtain out where out: "extract_table_rows urljoin base (Some (take 500 (drop (c_start st - 1) recs))) None = Inr (out, None)"
    "length out = min 500 (length recs - (c_start st - 1))"
    using page_of_records[OF assms(1)] by blast
  show ?thesis
    using out assms(2)
    by (intro exI[of _ out]) (auto simp: scrape_step_def page_records_def paged_source_def Let_def)
qed

lemma crawl_1300:
  assumes "length recs = 1300" and "list_all record_row recs"
  shows "\<exists>st. scrape_loop (paged_source recs) urljoin base crawl_init = Some st \<and>
     c_fetches st = [1, 501, 1001] \<and> length (c_rows st) = 1300"
proof -
  let ?f = "paged_source recs"
  obtain o1 where o1: "length o1 = min 500 (length recs - (c_start crawl_init - 1))"
    "scrape_step ?f urljoin base crawl_init =
       (if length o1 < 500
        then Break (crawl_init\<lparr>c_fetches := c_fetches crawl_init @ [c_start crawl_init], c_rows := c_rows crawl_init @ o1\<rparr>)
        else Continue (crawl_init\<lparr>c_fetches := c_fetches crawl_init @ [c_start crawl_init], c_rows := c_rows crawl_init @ o1,
                         c_start := c_start crawl_init + 500\<rparr>))"
    using step_paged[OF assms(2), of crawl_init urljoin base] by (auto simp: crawl_init_def)
  define st1 where "st1 = \<lparr>c_rows = o1, c_start = 501, c_header = None, c_fetches = [1]\<rparr>"
  have l1: "length o1 = 500" using o1(1) assms(1) by (simp add: crawl_init_def)
  have s1: "scrape_step ?f urljoin base crawl_init = Continue st1"
    using o1(2) l1 by (simp add: crawl_init_def st1_def)
  obtain o2 where o2: "length o2 = min 500 (length recs - (c_start st1 - 1))"
    "scrape_step ?f urljoin base st1 =
       (if length o2 < 500
        then Break (st1\<lparr>c_fetches := c_fetches st1 @ [c_start st1], c_rows := c_rows st1 @ o2\<rparr>)
        else Continue (st1\<lparr>c_fetches := c_fetches st1 @ [c_start st1], c_rows := c_rows st1 @ o2,
                         c_start := c_start st1 + 500\<rparr>))"
    using step_paged[OF assms(2), of st1 urljoin base] by (auto simp: st1_def)
  define st2 where "st2 = \<lparr>c_rows = o1 @ o2, c_start = 1001, c_header = None, c_fetches = [1, 501]\<rparr>"
  have l2: "length o2 = 500" using o2(1) assms(1) by (simp add: st1_def)
  have s2: "scrape_step ?f urljoin base st1 = Continue st2"
    using o2(2) l2 by (simp add: st1_def st2_def)
  obtain o3 where o3: "length o3 = min 500 (length recs - (c_start st2 - 1))"
    "scrape_step ?f urljoin base st2 =
       (if length o3 < 500
        then Break (st2\<lparr>c_fetches := c_fetches st2 @ [c_start st2], c_rows := c_rows st2 @ o3\<rparr>)
        else Continue (st2\<lparr>c_fetches := c_fetches st2 @ [c_start st2], c_rows := c_rows st2 @ o3,
                         c_start := c_start st2 + 500\<rparr>))"
    using step_paged[OF assms(2), of st2 urljoin base] by (auto simp: st2_def)
  define st3 where "st3 = \<lparr>c_rows = o1 @ o2 @ o3, c_start = 1001, c_header = None, c_fetches = [1, 501, 1001]\<rparr>"
  have l3: "length o3 = 300" using o3(1) assms(1) by (simp add: st2_def)
  have s3: "scrape_step ?f urljoin base st2 = Break st3"
    using o3(2) l3 by (simp add: st2_def st3_def)
  have "scrape_loop ?f urljoin base crawl_init = Some st3"
    unfolding loop_continue[OF s1] loop_continue[OF s2] loop_break[OF s3] ..
  moreover have "c_fetches st3 = [1, 501, 1001]" "length (c_rows st3) = 1300"
    using l1 l2 l3 by (simp_all add: st3_def)
  ultimately show ?thesis by blast
qed

lemma page_lengths_1300:
  assumes "length recs = 1300" and "list_all record_row recs"
  shows "map (\<lambda>s. length (page_records (paged_source recs) urljoin base (crawl_init\<lparr>c_start := s\<rparr>)))
           [1, 501, 1001] = [500, 500, 300]"
proof -
  have "length (page_records (paged_source recs) urljoin base (crawl_init\<lparr>c_start := s\<rparr>))
        = min 500 (1300 - (s - 1))" for s
    using step_paged[OF assms(2), of "crawl_init\<lparr>c_start := s\<rparr>" urljoin base] assms(1)
    by (auto simp: crawl_init_def)
  then show ?thesis by simp
qed

text \<open>
  Claim C4. A pass of the crawl loop ends the loop exactly when the page yields fewer
  than 500 records (none, in particular, and none when the fetch or the extraction
  raises); the loop then returns with the records of that page appended; otherwise it
  goes on at \<open>start + 500\<close>. On a listing that holds 1300 records and serves them 500 to
  a page, the crawl returns after exactly three fetches, at offsets 1, 501 and 1001, whose
  pages yield 500, 500 and 300 records, and the frame has 1300 rows.
\<close>

theorem pagination_ends_on_short_page:
  "((\<exists>st'. scrape_step fetch_page urljoin base st = Break st') \<longleftrightarrow>
       length (page_records fetch_page urljoin base st) < 500) \<and>
   (\<forall>st'. scrape_step fetch_page urljoin base st = Break st' \<longrightarrow>
       scrape_loop fetch_page urljoin base st = Some st' \<and>
       c_rows st' = c_rows st @ page_records fetch_page urljoin base st \<and>
       c_fetches st' = c_fetches st @ [c_start st]) \<and>
   (\<forall>st'. scrape_step fetch_page urljoin base st = Continue st' \<longrightarrow>
       scrape_loop fetch_page urljoin base st = scrape_loop fetch_page urljoin base st' \<and>
       c_rows st' = c_rows st @ page_records fetch_page urljoin base st \<and>
       c_fetches st' = c_fetches st @ [c_start st] \<and> c_start st' = c_start st + 500) \<and>
   (length recs = 1300 \<and> list_all record_row recs \<longrightarrow>
       (\<exists>df. scrape_fda_standards (paged_source recs) urljoin base cols = Some (df, [1, 501, 1001]) \<and>
             length (df_rows df) = 1300) \<and>
       map (\<lambda>s. length (page_records (paged_source recs) urljoin base (crawl_init\<lparr>c_start := s\<rparr>)))
           [1, 501, 1001] = [500, 500, 300])"
proof -
  have a: "(\<exists>st'. scrape_step fetch_page urljoin base st = Break st') \<longleftrightarrow>
       length (page_records fetch_page urljoin base st) < 500"
    by (rule step_break)
  have b: "\<forall>st'. scrape_step fetch_page urljoin base st = Break st' \<longrightarrow>
       scrape_loop fetch_page urljoin base st = Some st' \<and>
       c_rows st' = c_rows st @ page_records fetch_page urljoin base st \<and>
       c_fetches st' = c_fetches st @ [c_start st]"
    using loop_break step_break_rows by blast
  have c: "\<forall>st'. scrape_step fetch_page urljoin base st = Continue st' \<longrightarrow>
       scrape_loop fetch_page urljoin base st = scrape_loop fetch_page urljoin base st' \<and>
       c_rows st' = c_rows st @ page_records fetch_page urljoin base st \<and>
       c_fetches st' = c_fetches st @ [c_start st] \<and> c_start st' = c_start st + 500"
    using loop_continue step_continue_rows by blast
  have d: "length recs = 1300 \<and> list_all record_row recs \<longrightarrow>
       (\<exists>df. scrape_fda_standards (paged_source recs) urljoin base cols = Some (df, [1, 501, 1001]) \<and>
             length (df_rows df) = 1300) \<and>
       map (\<lambda>s. length (page_records (paged_source recs) urljoin base (crawl_init\<lparr>c_start := s\<rparr>)))
           [1, 501, 1001] = [500, 500, 300]"
  proof
    assume h: "length recs = 1300 \<and> list_all record_row recs"
    then obtain st where st: "scrape_loop (paged_source recs) urljoin base crawl_init = Some st"
      "c_fetches st = [1, 501, 1001]" "length (c_rows st) = 1300"
      using crawl_1300[of recs urljoin base] by blast
    have "scrape_fda_standards (paged_source recs) urljoin base cols
          = Some (to_frame cols (c_rows st), [1, 501, 1001])"
      using st(1,2) by (simp add: scrape_fda_standards_def crawl_init_def)
    moreover have "length (df_rows (to_frame cols (c_rows st))) = 1300"
      using st(3) by (simp add: to_frame_length)
    ultimately show "(\<exists>df. scrape_fda_standards (paged_source recs) urljoin base cols = Some (df, [1, 501, 1001]) \<and>
             length (df_rows df) = 1300) \<and>
       map (\<lambda>s. length (page_records (paged_source recs) urljoin base (crawl_init\<lparr>c_start := s\<rparr>)))
           [1, 501, 1001] = [500, 500, 300]"
      using page_lengths_1300[of recs urljoin base] h by blast
  qed
  from a b c d show ?thesis by blast
qed

text \<open>The theorem at a listing of 1300 copies of the example row.\<close>

theorem pagination_ends_on_short_page_witness:
  "length (replicate 1300 full_example) = 1300 \<and> list_all record_row (replicate 1300 full_example) \<and>
   (\<exists>df. scrape_fda_standards (paged_source (replicate 1300 full_example)) join_example base_example COLUMNS
            = Some (df, [1, 501, 1001]) \<and> length (df_rows df) = 1300)"
proof -
  have h1: "length (replicate 1300 full_example) = 1300" by simp
  have "record_row full_example"
    by (simp add: record_row_def tr_ok_def href_ok_def full_example_def plain_td_def link_td_def
        sublist_code prefix_code)
  then have h2: "list_all record_row (replicate 1300 full_example)"
    by (simp add: list_all_iff)
  from pagination_ends_on_short_page[of _ join_example base_example _ "replicate 1300 full_example" COLUMNS]
  have "length (replicate 1300 full_example) = 1300 \<and> list_all record_row (replicate 1300 full_example) \<longrightarrow>
       (\<exists>df. scrape_fda_standards (paged_source (replicate 1300 full_example)) join_example base_example COLUMNS
            = Some (df, [1, 501, 1001]) \<and> length (df_rows df) = 1300) \<and>
       map (\<lambda>s. length (page_records (paged_source (replicate 1300 full_example)) join_example base_example
             (crawl_init\<lparr>c_start := s\<rparr>))) [1, 501, 1001] = [500, 500, 300]"
    by blast
  with h1 h2 show ?thesis by blast
qed

section \<open>Properties of the synchronisation\<close>

lemma assign_col_rows: "df_rows (assign_col c f d) = map (\<lambda>r. set_col c (f r) r) (df_rows d)"
  by (simp add: assign_col_def)

lemma assign_col_keeps:
  "c \<noteq> k \<Longrightarrow> map (\<lambda>r. get_col r k) (df_rows (assign_col c f d)) = map (\<lambda>r. get_col r k) (df_rows d)"
  by (simp add: assign_col_rows comp_def get_col_set_col_other)

lemma apply_default_keeps:
  "c \<noteq> k \<Longrightarrow> map (\<lambda>r. get_col r k) (df_rows (apply_default c v d)) = map (\<lambda>r. get_col r k) (df_rows d)"
  by (simp add: apply_default_def assign_col_keeps)

lemma prepare_insert_keeps_ids:
  "map (\<lambda>r. get_col r ''unique_id'') (df_rows (prepare_insert to_iso d)) =
   map (\<lambda>r. get_col r ''unique_id'') (df_rows d)"
  by (simp add: prepare_insert_def Let_def apply_default_keeps assign_col_keeps)

lemma prepare_insert_length: "length (df_rows (prepare_insert to_iso d)) = length (df_rows d)"
  using arg_cong[OF prepare_insert_keeps_ids, of length to_iso d] by simp

lemma get_col_sql_row: "get_col (sql_row r) c = (if isna (get_col r c) then (if c \<in> fst ` set r then NoneV else NaN) else get_col r c)"
  unfolding get_col_def sql_row_def
  by (induction r) (auto split: option.splits)

lemma existing_ids_append: "existing_ids (db @ xs) = existing_ids db @ existing_ids xs"
  by (simp add: existing_ids_def)

lemma existing_ids_of_strs:
  "map (\<lambda>r. get_col r ''unique_id'') xs = map Str us \<Longrightarrow> existing_ids xs = us"
proof (induction xs arbitrary: us)
  case Nil
  then show ?case by (simp add: existing_ids_def)
next
  case (Cons x xs)
  then obtain u us' where us: "us = u # us'" by (cases us) auto
  with Cons.prems have "get_col x ''unique_id'' = Str u" "map (\<lambda>r. get_col r ''unique_id'') xs = map Str us'"
    by simp_all
  with Cons.IH[of us'] us show ?case by (simp add: existing_ids_def)
qed

lemma existing_ids_sql_rows:
  assumes "map (\<lambda>r. get_col r ''unique_id'') xs = map Str us"
  shows "existing_ids (map sql_row xs) = us"
proof -
  have "map (\<lambda>r. get_col r ''unique_id'') (map sql_row xs) = map Str us"
    using assms
  proof (induction xs arbitrary: us)
    case Nil
    then show ?case by simp
  next
    case (Cons x xs)
    then obtain u us' where us: "us = u # us'" by (cases us) auto
    with Cons.prems have "get_col x ''unique_id'' = Str u" "map (\<lambda>r. get_col r ''unique_id'') xs = map Str us'"
      by simp_all
    with Cons.IH[of us'] us show ?case by (simp add: get_col_sql_row)
  qed
  then show ?thesis by (rule existing_ids_of_strs)
qed

lemma check_duplicates_rows:
  assumes "\<not> df_empty df" "missing_cols df = []"
  shows "df_rows (check_duplicates md5_hex None db df) =
     map (\<lambda>r. set_col ''unique_id'' (Str (row_unique_id md5_hex r)) r)
       (filter (\<lambda>r. row_unique_id md5_hex r \<notin> set (existing_ids db)) (df_rows df))"
  using assms
  by (simp add: check_duplicates_def Let_def assign_col_rows filter_map comp_def get_col_set_col_same)

lemma check_duplicates_ids:
  assumes "\<not> df_empty df" "missing_cols df = []"
  shows "map (\<lambda>r. get_col r ''unique_id'') (df_rows (check_duplicates md5_hex None db df)) =
     map Str (map (row_unique_id md5_hex)
       (filter (\<lambda>r. row_unique_id md5_hex r \<notin> set (existing_ids db)) (df_rows df)))"
  unfolding check_duplicates_rows[OF assms] by (simp add: comp_def get_col_set_col_same)

lemma check_duplicates_columns:
  assumes "\<not> df_empty df" "missing_cols df = []"
  shows "df_columns (check_duplicates md5_hex None db df) \<noteq> []"
  using assms
  by (auto simp: check_duplicates_def Let_def assign_col_def add_column_def df_empty_def)

lemma check_duplicates_rejects:
  "df_empty df \<or> missing_cols df \<noteq> [] \<or> read_exc \<noteq> None \<Longrightarrow>
   check_duplicates md5_hex read_exc db df = empty_df"
  by (auto simp: check_duplicates_def split: option.splits)

lemma df_empty_empty_df: "df_empty empty_df"
  by (simp add: df_empty_def empty_df_def)

lemma insert_rejects:
  "df_empty df \<or> missing_cols df \<noteq> [] \<or> read_exc \<noteq> None \<Longrightarrow>
   insert_new_standards md5_hex to_iso read_exc write_exc db df = (db, True, No_new_records)"
  by (simp add: insert_new_standards_def check_duplicates_rejects df_empty_empty_df del: not_None_eq)

lemma insert_ok:
  assumes "\<not> df_empty df" "missing_cols df = []"
    and new_def: "new = filter (\<lambda>r. row_unique_id md5_hex r \<notin> set (existing_ids db)) (df_rows df)"
  shows "new = [] \<Longrightarrow> insert_new_standards md5_hex to_iso None None db df = (db, True, No_new_records)"
    and "new \<noteq> [] \<Longrightarrow> \<exists>ins. insert_new_standards md5_hex to_iso None None db df
            = (db @ ins, True, Inserted (length new)) \<and> length ins = length new \<and>
            existing_ids ins = map (row_unique_id md5_hex) new"
proof -
  let ?nd = "check_duplicates md5_hex None db df"
  have rows: "length (df_rows ?nd) = length new"
    unfolding check_duplicates_rows[OF assms(1,2)] new_def by simp
  have cols: "df_columns ?nd \<noteq> []" by (rule check_duplicates_columns[OF assms(1,2)])
  have emp: "df_empty ?nd \<longleftrightarrow> new = []"
    using rows cols by (auto simp: df_empty_def)
  show "new = [] \<Longrightarrow> insert_new_standards md5_hex to_iso None None db df = (db, True, No_new_records)"
    using emp by (simp add: insert_new_standards_def)
  have ids: "existing_ids (map sql_row (df_rows (prepare_insert to_iso ?nd))) = map (row_unique_id md5_hex) new"
    by (rule existing_ids_sql_rows)
      (simp only: prepare_insert_keeps_ids check_duplicates_ids[OF assms(1,2)] new_def)
  show "new \<noteq> [] \<Longrightarrow> \<exists>ins. insert_new_standards md5_hex to_iso None None db df
            = (db @ ins, True, Inserted (length new)) \<and> length ins = length new \<and>
            existing_ids ins = map (row_unique_id md5_hex) new"
    using emp rows ids
    by (intro exI[of _ "map sql_row (df_rows (prepare_insert to_iso ?nd))"])
       (simp add: insert_new_standards_def Let_def prepare_insert_length)
qed

lemma insert_result:
  assumes "\<not> df_empty df" "missing_cols df = []"
  shows "\<exists>ins. fst (insert_new_standards md5_hex to_iso None None db df) = db @ ins \<and>
      existing_ids ins = map (row_unique_id md5_hex)
         (filter (\<lambda>r. row_unique_id md5_hex r \<notin> set (existing_ids db)) (df_rows df))"
proof (cases "filter (\<lambda>r. row_unique_id md5_hex r \<notin> set (existing_ids db)) (df_rows df) = []")
  case True
  from insert_ok(1)[OF assms refl True, of to_iso] show ?thesis
    using True by (simp add: existing_ids_def)
next
  case False
  from insert_ok(2)[OF assms refl False, of to_iso] show ?thesis by auto
qed

lemma same_key_same_id:
  assumes "get_col r1 ''recognition_number'' = get_col r2 ''recognition_number''"
    and "get_col r1 ''standards_developing_organization'' = get_col r2 ''standards_developing_organization''"
    and "get_col r1 ''standard_designation_number_and_date'' = get_col r2 ''standard_designation_number_and_date''"
  shows "row_unique_id md5_hex r1 = row_unique_id md5_hex r2"
  using assms by (simp add: row_unique_id_def)

lemma two_hits:
  assumes "i < j" "j < length xs" "P (xs ! i)" "P (xs ! j)"
  shows "2 \<le> length (filter P xs)"
proof -
  have xs: "xs = take j xs @ xs ! j # drop (Suc j) xs"
    using assms(2) by (rule id_take_nth_drop)
  have "xs ! i \<in> set (take j xs)"
    using assms(1,2) by (metis in_set_conv_nth length_take min.absorb2 less_imp_le nth_take)
  then have "filter P (take j xs) \<noteq> []"
    using assms(3) by (auto simp: filter_empty_conv)
  then have "1 \<le> length (filter P (take j xs))"
    by (cases "filter P (take j xs)") simp_all
  moreover have "length (filter P xs) =
      length (filter P (take j xs)) + length (filter P (xs ! j # drop (Suc j) xs))"
    by (subst xs) simp
  ultimately show ?thesis using assms(4) by simp
qed

lemma two_same_key_facts:
  "missing_cols two_same_key = []" "\<not> df_empty two_same_key"
  "df_rows two_same_key ! 0 = [(''recognition_number'', Str ''1-140''), (''standards_developing_organization'', Str ''ISO''),
          (''standard_designation_number_and_date'', Str ''5360''), (''standard_title'', Str ''A'')]"
  "df_rows two_same_key ! 1 = [(''recognition_number'', Str ''1-140''), (''standards_developing_organization'', Str ''ISO''),
          (''standard_designation_number_and_date'', Str ''5360''), (''standard_title'', Str ''B'')]"
  "length (df_rows two_same_key) = 2"
  by (simp_all add: two_same_key_def missing_cols_def required_cols_def df_empty_def)

lemma resync:
  assumes "db1 = fst (insert_new_standards md5_hex to_iso None None db df)"
  shows "insert_new_standards md5_hex to_iso None None db1 df = (db1, True, No_new_records) \<and>
     df_rows (check_duplicates md5_hex None db1 df) = [] \<and>
     (\<not> df_empty df \<and> missing_cols df = [] \<longrightarrow>
        list_all (\<lambda>r. row_unique_id md5_hex r \<in> set (existing_ids db1)) (df_rows df) \<and>
        (\<exists>ins. db1 = db @ ins \<and>
           existing_ids ins = map (row_unique_id md5_hex)
             (filter (\<lambda>r. row_unique_id md5_hex r \<notin> set (existing_ids db)) (df_rows df))))"
proof (cases "df_empty df \<or> missing_cols df \<noteq> []")
  case True
  then have "insert_new_standards md5_hex to_iso None None db1 df = (db1, True, No_new_records)"
    "check_duplicates md5_hex None db1 df = empty_df"
    using insert_rejects[of df None md5_hex to_iso None db1]
      check_duplicates_rejects[of df None md5_hex db1] by auto
  with True show ?thesis by (auto simp: empty_df_def)
next
  case False
  then have ok: "\<not> df_empty df" "missing_cols df = []" by simp_all
  define new where "new = filter (\<lambda>r. row_unique_id md5_hex r \<notin> set (existing_ids db)) (df_rows df)"
  obtain ins where ins: "db1 = db @ ins" "existing_ids ins = map (row_unique_id md5_hex) new"
    using insert_result[OF ok, of md5_hex to_iso db] unfolding assms new_def by blast
  have all: "list_all (\<lambda>r. row_unique_id md5_hex r \<in> set (existing_ids db1)) (df_rows df)"
    unfolding list_all_iff ins(1) existing_ids_append ins(2) new_def by auto
  then have none: "filter (\<lambda>r. row_unique_id md5_hex r \<notin> set (existing_ids db1)) (df_rows df) = []"
    by (simp add: filter_empty_conv list_all_iff)
  have "insert_new_standards md5_hex to_iso None None db1 df = (db1, True, No_new_records)"
    by (rule insert_ok(1)[OF ok refl none])
  moreover have "df_rows (check_duplicates md5_hex None db1 df) = []"
    unfolding check_duplicates_rows[OF ok] none by simp
  ultimately show ?thesis using all ins unfolding new_def by blast
qed

lemma write_failure_reported:
  assumes "\<not> df_empty (check_duplicates md5_hex read_exc db df)"
  shows "insert_new_standards md5_hex to_iso read_exc (Some e) db df = (db, False, Insert_failed e)"
  using assms by (simp add: insert_new_standards_def Let_def)

text \<open>
  Claim C1. When the database raises in neither run, a second \<open>insert_new_standards\<close>
  on the same frame, against the table the first one left, finds no new record
  (\<open>check_duplicates\<close> returns no row), inserts nothing and leaves the table as it is;
  where the frame has rows and the required columns, the identity of every input row is
  among the identities of that table, and the first run has appended one row for each
  input row whose identity the table did not hold, in input order.
\<close>

theorem sync_idempotent:
  "insert_new_standards md5_hex to_iso None None
      (fst (insert_new_standards md5_hex to_iso None None db df)) df
     = (fst (insert_new_standards md5_hex to_iso None None db df), True, No_new_records) \<and>
   df_rows (check_duplicates md5_hex None (fst (insert_new_standards md5_hex to_iso None None db df)) df) = [] \<and>
   (\<not> df_empty df \<and> missing_cols df = [] \<longrightarrow>
      list_all (\<lambda>r. row_unique_id md5_hex r
                  \<in> set (existing_ids (fst (insert_new_standards md5_hex to_iso None None db df))))
        (df_rows df) \<and>
      (\<exists>ins. fst (insert_new_standards md5_hex to_iso None None db df) = db @ ins \<and>
         existing_ids ins = map (row_unique_id md5_hex)
           (filter (\<lambda>r. row_unique_id md5_hex r \<notin> set (existing_ids db)) (df_rows df))))"
  by (rule resync[OF refl])

text \<open>The theorem at the frame of two records and the empty table.\<close>

theorem sync_idempotent_witness:
  "\<not> df_empty two_same_key \<and> missing_cols two_same_key = [] \<and>
   insert_new_standards hash_example iso_example None None
      (fst (insert_new_standards hash_example iso_example None None [] two_same_key)) two_same_key
     = (fst (insert_new_standards hash_example iso_example None None [] two_same_key), True, No_new_records) \<and>
   list_all (\<lambda>r. row_unique_id hash_example r
                  \<in> set (existing_ids (fst (insert_new_standards hash_example iso_example None None [] two_same_key))))
        (df_rows two_same_key)"
proof -
  have h: "\<not> df_empty two_same_key \<and> missing_cols two_same_key = []"
    by (simp add: two_same_key_facts)
  from sync_idempotent[of hash_example iso_example "[]" two_same_key] h
  show ?thesis by blast
qed

text \<open>
  Claim C5, as amended. \<open>check_duplicates\<close> screens each row of the frame against the
  identities the table holds when it is called, and against nothing else: when two rows
  of the frame have the same natural key, hence the same identity, and the table does not
  hold it, both are returned as new, and when the database does not raise
  \<open>insert_new_standards\<close> appends as many rows of that identity as the frame has.
\<close>

theorem batch_screened_against_store_only:
  assumes "missing_cols df = []"
    and "i < j" and "j < length (df_rows df)"
    and "get_col (df_rows df ! i) ''recognition_number'' = get_col (df_rows df ! j) ''recognition_number''"
    and "get_col (df_rows df ! i) ''standards_developing_organization''
         = get_col (df_rows df ! j) ''standards_developing_organization''"
    and "get_col (df_rows df ! i) ''standard_designation_number_and_date''
         = get_col (df_rows df ! j) ''standard_designation_number_and_date''"
    and "row_unique_id md5_hex (df_rows df ! i) \<notin> set (existing_ids db)"
  shows "row_unique_id md5_hex (df_rows df ! j) = row_unique_id md5_hex (df_rows df ! i) \<and>
     df_rows (check_duplicates md5_hex None db df) =
       map (\<lambda>r. set_col ''unique_id'' (Str (row_unique_id md5_hex r)) r)
         (filter (\<lambda>r. row_unique_id md5_hex r \<notin> set (existing_ids db)) (df_rows df)) \<and>
     (\<exists>ins. fst (insert_new_standards md5_hex to_iso None None db df) = db @ ins \<and>
        existing_ids ins = map (row_unique_id md5_hex)
          (filter (\<lambda>r. row_unique_id md5_hex r \<notin> set (existing_ids db)) (df_rows df)) \<and>
        length (filter (\<lambda>u. u = row_unique_id md5_hex (df_rows df ! i)) (existing_ids ins)) =
        length (filter (\<lambda>r. row_unique_id md5_hex r = row_unique_id md5_hex (df_rows df ! i)) (df_rows df)) \<and>
        2 \<le> length (filter (\<lambda>u. u = row_unique_id md5_hex (df_rows df ! i)) (existing_ids ins)))"
proof -
  let ?u = "row_unique_id md5_hex (df_rows df ! i)"
  let ?rows = "df_rows df"
  have ne: "\<not> df_empty df"
    using assms(1,3) by (auto simp: df_empty_def missing_cols_def required_cols_def)
  have same: "row_unique_id md5_hex (?rows ! j) = ?u"
    using same_key_same_id[OF assms(4,5,6)] by simp
  obtain ins where ins: "fst (insert_new_standards md5_hex to_iso None None db df) = db @ ins"
    "existing_ids ins = map (row_unique_id md5_hex)
          (filter (\<lambda>r. row_unique_id md5_hex r \<notin> set (existing_ids db)) ?rows)"
    using insert_result[OF ne assms(1)] by blast
  have cnt: "length (filter (\<lambda>u. u = ?u) (existing_ids ins)) =
        length (filter (\<lambda>r. row_unique_id md5_hex r = ?u) ?rows)"
    unfolding ins(2) filter_map comp_def length_map filter_filter
    using assms(7) by (metis (mono_tags, lifting))
  have ij: "i < length ?rows" using assms(2,3) by simp
  have two: "2 \<le> length (filter (\<lambda>r. row_unique_id md5_hex r = ?u) ?rows)"
    by (rule two_hits[OF assms(2,3)]) (simp_all add: same)
  show ?thesis
    using same check_duplicates_rows[OF ne assms(1)] ins cnt two by auto
qed

text \<open>The theorem at the frame of two records with one natural key.\<close>

theorem batch_screened_against_store_only_witness:
  "missing_cols two_same_key = [] \<and> (0::nat) < 1 \<and> 1 < length (df_rows two_same_key) \<and>
   row_unique_id hash_example (df_rows two_same_key ! 0) \<notin> set (existing_ids []) \<and>
   (\<exists>ins. fst (insert_new_standards hash_example iso_example None None [] two_same_key) = [] @ ins \<and>
      2 \<le> length (filter (\<lambda>u. u = row_unique_id hash_example (df_rows two_same_key ! 0)) (existing_ids ins)))"
proof -
  have h1: "missing_cols two_same_key = []" by (rule two_same_key_facts)
  have h2: "(0::nat) < 1" by simp
  have h3: "1 < length (df_rows two_same_key)" by (simp add: two_same_key_facts)
  have h4: "get_col (df_rows two_same_key ! 0) ''recognition_number''
            = get_col (df_rows two_same_key ! 1) ''recognition_number''"
    by (simp add: two_same_key_def get_col_def)
  have h5: "get_col (df_rows two_same_key ! 0) ''standards_developing_organization''
            = get_col (df_rows two_same_key ! 1) ''standards_developing_organization''"
    by (simp add: two_same_key_def get_col_def)
  have h6: "get_col (df_rows two_same_key ! 0) ''standard_designation_number_and_date''
            = get_col (df_rows two_same_key ! 1) ''standard_designation_number_and_date''"
    by (simp add: two_same_key_def get_col_def)
  have h7: "row_unique_id hash_example (df_rows two_same_key ! 0) \<notin> set (existing_ids [])"
    by (simp add: existing_ids_def)
  from batch_screened_against_store_only[OF h1 h2 h3 h4 h5 h6 h7, of iso_example]
  show ?thesis using h1 h2 h3 h7 by blast
qed

text \<open>
  Both records of that frame are inserted into the empty table, the later occurrence
  (title \<open>B\<close>) as well as the first.
\<close>

theorem within_batch_duplicate_inserted_twice:
  "insert_new_standards hash_example iso_example None None [] two_same_key =
     ([[(''recognition_number'', Str ''1-140''), (''standards_developing_organization'', Str ''ISO''),
        (''standard_designation_number_and_date'', Str ''5360''), (''standard_title'', Str ''A''),
        (''unique_id'', Str ''1-140|ISO|5360''), (''aws_bucket'', Str ''lexim-international''),
        (''aws_key'', NoneV), (''aws_html_key'', NoneV),
        (''specialty_task_group_area'', Str ''UNKNOWN'')],
       [(''recognition_number'', Str ''1-140''), (''standards_developing_organization'', Str ''ISO''),
        (''standard_designation_number_and_date'', Str ''5360''), (''standard_title'', Str ''B''),
        (''unique_id'', Str ''1-140|ISO|5360''), (''aws_bucket'', Str ''lexim-international''),
        (''aws_key'', NoneV), (''aws_html_key'', NoneV),
        (''specialty_task_group_area'', Str ''UNKNOWN'')]],
      True, Inserted 2)"
  by (simp add: insert_new_standards_def check_duplicates_def prepare_insert_def apply_default_def
      assign_col_def add_column_def set_col_def get_col_def sql_row_def df_empty_def missing_cols_def
      required_cols_def existing_ids_def row_unique_id_def generate_unique_id_def hash_example_def
      iso_example_def two_same_key_def s3_bucket_def Let_def)

text \<open>
  Claim C6. For a frame that lacks one of the columns \<open>recognition_number\<close>,
  \<open>standards_developing_organization\<close> and \<open>standard_designation_number_and_date\<close>,
  \<open>check_duplicates\<close> returns the empty frame, and \<open>insert_new_standards\<close> leaves the
  table as it is.
\<close>

theorem sync_rejects_missing_columns:
  assumes "c \<in> set required_cols" and "c \<notin> set (df_columns df)"
  shows "check_duplicates md5_hex read_exc db df = empty_df \<and>
         df_rows (check_duplicates md5_hex read_exc db df) = [] \<and>
         insert_new_standards md5_hex to_iso read_exc write_exc db df = (db, True, No_new_records)"
proof -
  have m: "missing_cols df \<noteq> []"
    using assms by (auto simp: missing_cols_def filter_empty_conv)
  show ?thesis
    using check_duplicates_rejects[of df read_exc md5_hex db]
      insert_rejects[of df read_exc md5_hex to_iso write_exc db] m
    by (simp add: empty_df_def)
qed

text \<open>The theorem at the frame without the designation column.\<close>

theorem sync_rejects_missing_columns_witness:
  "''standard_designation_number_and_date'' \<in> set required_cols \<and>
   ''standard_designation_number_and_date'' \<notin> set (df_columns no_designation) \<and>
   check_duplicates hash_example None [] no_designation = empty_df \<and>
   insert_new_standards hash_example iso_example None None [] no_designation = ([], True, No_new_records)"
proof -
  have h1: "''standard_designation_number_and_date'' \<in> set required_cols"
    by (simp add: required_cols_def)
  have h2: "''standard_designation_number_and_date'' \<notin> set (df_columns no_designation)"
    by (simp add: no_designation_def)
  from sync_rejects_missing_columns[OF h1 h2, of hash_example None "[]" iso_example None]
  show ?thesis using h1 h2 by blast
qed

text \<open>
  Claim C9 fails in the code. When the read of the existing identities raises,
  \<open>insert_new_standards\<close> returns \<open>True\<close> with the message for no new records, the very
  pair a run returns that finds every record in the table already.
\<close>

theorem read_failure_reported_as_success:
  "insert_new_standards md5_hex to_iso (Some e) write_exc db df = (db, True, No_new_records) \<and>
   snd (insert_new_standards md5_hex to_iso (Some e) write_exc db df) =
   snd (insert_new_standards md5_hex to_iso None None
          (fst (insert_new_standards md5_hex to_iso None None db df)) df)"
proof -
  have "insert_new_standards md5_hex to_iso (Some e) write_exc db df = (db, True, No_new_records)"
    by (rule insert_rejects) simp
  moreover have "insert_new_standards md5_hex to_iso None None
          (fst (insert_new_standards md5_hex to_iso None None db df)) df
     = (fst (insert_new_standards md5_hex to_iso None None db df), True, No_new_records)"
    using resync[OF refl] by blast
  ultimately show ?thesis by simp
qed

section \<open>Properties of the artifact pipeline\<close>

lemma process_skip:
  assumes "use_s3 env" "already_stored w row"
  shows "process_standard env w row = (w\<lparr>w_db := recorded env w row\<rparr>, True)"
  using assms
  by (simp add: process_standard_def Let_def already_stored_def pdf_key_def html_key_def recorded_def)

lemma process_upload:
  assumes "use_s3 env" "\<not> already_stored w row"
    and "extract_detailed_data env (e_title_link row) row = Some data"
    and "generate_pdf env w (sanitize_filename (e_pdf_filename row)) = (w1, pp)"
    and "generate_html env w1 (sanitize_filename (e_html_filename row)) = (w2, hp)"
    and "x = upload_and_record env w2 (e_title_link row) (sanitize_filename (e_pdf_filename row))
               (sanitize_filename (e_html_filename row)) pp hp"
  shows "process_standard env w row = (block_world x, block_ok x)"
  using assms
  by (auto simp: process_standard_def Let_def already_stored_def pdf_key_def html_key_def
      block_world_def block_ok_def split: sum.splits prod.splits)

lemma generate_facts:
  assumes "generate_pdf env w pn = (w1, pp)" and "generate_html env w1 hn = (w2, hp)"
  shows "w_db w2 = w_db w" and "w_s3 w2 = w_s3 w" and "set (w_files w) \<subseteq> set (w_files w2)"
    and "pp \<noteq> None \<longleftrightarrow> pdf_written env" and "hp \<noteq> None \<longleftrightarrow> html_written env"
  using assms by (auto simp: generate_pdf_def generate_html_def Let_def split: if_splits)

lemma upload_block_db:
  "w_db (block_world (upload_and_record env w url pn hn pp hp)) =
     (if pp \<noteq> None \<and> hp \<noteq> None \<and> upload_outcome env (s3_prefix @ ''PDF/'' @ pn) = Uploaded \<and>
         upload_outcome env (s3_prefix @ ''HTML/'' @ hn) = Uploaded
      then fst (update_s3_paths (update_exc env) (w_db w) url pn hn) else w_db w)"
  by (auto simp: block_world_def upload_and_record_def upload_file_def os_remove_def Let_def
      split: option.splits s3_outcome.splits sum.splits if_splits)

lemma upload_block_files:
  "\<not> (pp \<noteq> None \<and> hp \<noteq> None \<and> upload_outcome env (s3_prefix @ ''PDF/'' @ pn) = Uploaded \<and>
      upload_outcome env (s3_prefix @ ''HTML/'' @ hn) = Uploaded) \<Longrightarrow>
   w_files (block_world (upload_and_record env w url pn hn pp hp)) = w_files w \<and>
   \<not> block_ok (upload_and_record env w url pn hn pp hp)"
  by (auto simp: block_world_def block_ok_def upload_and_record_def upload_file_def os_remove_def Let_def
      split: option.splits s3_outcome.splits sum.splits if_splits)

lemma process_db:
  assumes "use_s3 env" "\<not> already_stored w row"
    and "extract_detailed_data env (e_title_link row) row = Some data"
  shows "w_db (fst (process_standard env w row)) =
     (if pdf_uploaded env row \<and> html_uploaded env row then recorded env w row else w_db w)"
proof -
  let ?pn = "sanitize_filename (e_pdf_filename row)" and ?hn = "sanitize_filename (e_html_filename row)"
  obtain w1 pp where g1: "generate_pdf env w ?pn = (w1, pp)" by (cases "generate_pdf env w ?pn")
  obtain w2 hp where g2: "generate_html env w1 ?hn = (w2, hp)" by (cases "generate_html env w1 ?hn")
  note ps = process_upload[OF assms g1 g2 refl]
  show ?thesis
    unfolding ps fst_conv upload_block_db generate_facts[OF g1 g2]
    by (simp add: pdf_uploaded_def html_uploaded_def pdf_key_def html_key_def recorded_def)
qed

lemma process_partial_failure:
  assumes "use_s3 env" "\<not> already_stored w row"
    and "\<not> (pdf_uploaded env row \<and> html_uploaded env row)"
  shows "w_db (fst (process_standard env w row)) = w_db w \<and>
         set (w_files w) \<subseteq> set (w_files (fst (process_standard env w row))) \<and>
         \<not> snd (process_standard env w row)"
proof (cases "extract_detailed_data env (e_title_link row) row")
  case None
  then show ?thesis using assms
    by (simp add: process_standard_def Let_def already_stored_def pdf_key_def html_key_def)
next
  case (Some data)
  let ?pn = "sanitize_filename (e_pdf_filename row)" and ?hn = "sanitize_filename (e_html_filename row)"
  obtain w1 pp where g1: "generate_pdf env w ?pn = (w1, pp)" by (cases "generate_pdf env w ?pn")
  obtain w2 hp where g2: "generate_html env w1 ?hn = (w2, hp)" by (cases "generate_html env w1 ?hn")
  note ps = process_upload[OF assms(1,2) Some g1 g2 refl]
  have nb: "\<not> (pp \<noteq> None \<and> hp \<noteq> None \<and> upload_outcome env (s3_prefix @ ''PDF/'' @ ?pn) = Uploaded \<and>
      upload_outcome env (s3_prefix @ ''HTML/'' @ ?hn) = Uploaded)"
    using assms(3) unfolding generate_facts(4,5)[OF g1 g2]
    by (simp add: pdf_uploaded_def html_uploaded_def pdf_key_def html_key_def)
  show ?thesis
    unfolding ps fst_conv snd_conv
    using upload_block_files[OF nb, of w2 "e_title_link row"] process_db[OF assms(1,2) Some] assms(3)
      generate_facts(3)[OF g1 g2]
    unfolding ps fst_conv by simp
qed

lemma rendered_files:
  "w_files (rendered env w row) =
     (if html_written env then [html_local env row] else []) @
     (if pdf_written env then [pdf_local env row] else []) @ w_files w"
  by (simp add: rendered_def generate_pdf_def generate_html_def pdf_local_def html_local_def Let_def)

lemma process_failure_files:
  assumes "use_s3 env" "\<not> already_stored w row"
    and "extract_detailed_data env (e_title_link row) row = Some data"
    and "\<not> (pdf_uploaded env row \<and> html_uploaded env row)"
  shows "w_files (fst (process_standard env w row)) = w_files (rendered env w row)"
proof -
  let ?pn = "sanitize_filename (e_pdf_filename row)" and ?hn = "sanitize_filename (e_html_filename row)"
  obtain w1 pp where g1: "generate_pdf env w ?pn = (w1, pp)" by (cases "generate_pdf env w ?pn")
  obtain w2 hp where g2: "generate_html env w1 ?hn = (w2, hp)" by (cases "generate_html env w1 ?hn")
  note ps = process_upload[OF assms(1,2,3) g1 g2 refl]
  have nb: "\<not> (pp \<noteq> None \<and> hp \<noteq> None \<and> upload_outcome env (s3_prefix @ ''PDF/'' @ ?pn) = Uploaded \<and>
      upload_outcome env (s3_prefix @ ''HTML/'' @ ?hn) = Uploaded)"
    using assms(4) unfolding generate_facts(4,5)[OF g1 g2]
    by (simp add: pdf_uploaded_def html_uploaded_def pdf_key_def html_key_def)
  have "rendered env w row = w2" by (simp add: rendered_def g1 g2)
  then show ?thesis
    unfolding ps fst_conv using upload_block_files[OF nb, of w2 "e_title_link row"] by simp
qed

lemma process_files_kept:
  assumes "\<not> (use_s3 env \<and> \<not> already_stored w row \<and> pdf_uploaded env row \<and> html_uploaded env row)"
  shows "set (w_files w) \<subseteq> set (w_files (fst (process_standard env w row)))"
proof (cases "use_s3 env")
  case False
  then show ?thesis
    by (auto simp: process_standard_def Let_def generate_pdf_def generate_html_def
        split: option.splits prod.splits)
next
  case True
  show ?thesis
  proof (cases "already_stored w row")
    case True
    with \<open>use_s3 env\<close> show ?thesis by (simp add: process_skip)
  next
    case False
    with assms True have "\<not> (pdf_uploaded env row \<and> html_uploaded env row)" by blast
    from process_partial_failure[OF True False this] show ?thesis by blast
  qed
qed

lemma upload_block_s3:
  assumes "pp \<noteq> None" "hp \<noteq> None"
    and "upload_outcome env (s3_prefix @ ''PDF/'' @ pn) = Uploaded"
    and "upload_outcome env (s3_prefix @ ''HTML/'' @ hn) = Uploaded"
  shows "w_s3 (block_world (upload_and_record env w url pn hn pp hp)) =
           (s3_prefix @ ''HTML/'' @ hn) # (s3_prefix @ ''PDF/'' @ pn) # w_s3 w"
  using assms
  by (auto simp: block_world_def upload_and_record_def upload_file_def os_remove_def Let_def
      split: option.splits sum.splits)

lemma process_change_needs_artifacts:
  assumes "w_db (fst (process_standard env w row)) \<noteq> w_db w"
  shows "use_s3 env \<and> (already_stored w row \<or> (pdf_uploaded env row \<and> html_uploaded env row)) \<and>
         file_exists (fst (process_standard env w row)) (pdf_key row) \<and>
         file_exists (fst (process_standard env w row)) (html_key row)"
proof -
  have s3: "use_s3 env"
  proof (rule ccontr)
    assume "\<not> use_s3 env"
    then have "w_db (fst (process_standard env w row)) = w_db w"
      by (auto simp: process_standard_def Let_def generate_pdf_def generate_html_def
          split: option.splits prod.splits)
    with assms show False by simp
  qed
  show ?thesis
  proof (cases "already_stored w row")
    case True
    then show ?thesis using s3 process_skip[OF s3 True]
      by (simp add: already_stored_def file_exists_def)
  next
    case False
    show ?thesis
    proof (cases "extract_detailed_data env (e_title_link row) row")
      case None
      then have "w_db (fst (process_standard env w row)) = w_db w"
        using s3 False
        by (auto simp: process_standard_def Let_def already_stored_def pdf_key_def html_key_def)
      with assms show ?thesis by simp
    next
      case (Some data)
      have both: "pdf_uploaded env row \<and> html_uploaded env row"
        using process_db[OF s3 False Some] assms by (auto split: if_splits)
      let ?pn = "sanitize_filename (e_pdf_filename row)" and ?hn = "sanitize_filename (e_html_filename row)"
      obtain w1 pp where g1: "generate_pdf env w ?pn = (w1, pp)" by (cases "generate_pdf env w ?pn")
      obtain w2 hp where g2: "generate_html env w1 ?hn = (w2, hp)" by (cases "generate_html env w1 ?hn")
      note ps = process_upload[OF s3 False Some g1 g2 refl]
      have "pp \<noteq> None" "hp \<noteq> None"
        using both unfolding generate_facts(4,5)[OF g1 g2]
        by (simp_all add: pdf_uploaded_def html_uploaded_def)
      moreover have "upload_outcome env (s3_prefix @ ''PDF/'' @ ?pn) = Uploaded"
        "upload_outcome env (s3_prefix @ ''HTML/'' @ ?hn) = Uploaded"
        using both by (simp_all add: pdf_uploaded_def html_uploaded_def pdf_key_def html_key_def)
      ultimately have "w_s3 (fst (process_standard env w row)) =
           (s3_prefix @ ''HTML/'' @ ?hn) # (s3_prefix @ ''PDF/'' @ ?pn) # w_s3 w2"
        unfolding ps fst_conv by (rule upload_block_s3)
      then show ?thesis using s3 both
        by (simp add: file_exists_def pdf_key_def html_key_def)
    qed
  qed
qed

lemma update_result:
  "snd (update_s3_paths None db lnk pn hn) = list_ex (links_to lnk) db"
  by (induction db) (auto simp: update_s3_paths_def Let_def links_to_def list_ex_iff filter_empty_conv)

lemma update_rows:
  "list_all2 (\<lambda>r r'. if links_to lnk r
                      then get_col r' ''aws_key'' = Str (s3_prefix @ ''PDF/'' @ pn) \<and>
                           get_col r' ''aws_html_key'' = Str (s3_prefix @ ''HTML/'' @ hn) \<and>
                           get_col r' ''title_link'' = get_col r ''title_link'' \<and>
                           \<not> unprocessed r'
                      else r' = r)
     db (fst (update_s3_paths None db lnk pn hn))"
  by (simp add: update_s3_paths_def Let_def links_to_def list_all2_map2 list_all2_same
      get_col_set_col_same get_col_set_col_other unprocessed_def null_or_empty_def s3_prefix_def)

lemma update_no_match:
  "\<not> list_ex (links_to lnk) db \<Longrightarrow> update_s3_paths exc db lnk pn hn = (db, False)"
  by (cases exc) (auto simp: update_s3_paths_def Let_def links_to_def list_ex_iff filter_empty_conv
      intro: map_idI)

lemma example_keys: "pdf_key entry_example \<noteq> html_key entry_example"
  by (simp add: pdf_key_def html_key_def s3_prefix_def)

text \<open>
  Claim C3. In the upload block of \<open>process_standard\<close>, unless both uploads succeed the
  table is left as it is, no local file is removed and the result is not a success. So,
  for an entry whose artifacts are not both in the bucket already, if the PDF upload
  succeeds and the HTML upload fails, the table is untouched, \<open>process_standard\<close> returns
  \<open>False\<close>, and the local files are those present after rendering, the PDF among them.
  On any path other than the one where both uploads succeed, no local file is removed.
  Whenever \<open>process_standard\<close> changes the table, both artifacts are in the bucket:
  found there at the start, or uploaded by this call.
\<close>

theorem no_partial_completion:
  "(\<not> (pdf_path \<noteq> None \<and> html_path \<noteq> None \<and>
        upload_outcome env (s3_prefix @ ''PDF/'' @ pdf_filename) = Uploaded \<and>
        upload_outcome env (s3_prefix @ ''HTML/'' @ html_filename) = Uploaded) \<longrightarrow>
      w_db (block_world (upload_and_record env w url pdf_filename html_filename pdf_path html_path)) = w_db w \<and>
      w_files (block_world (upload_and_record env w url pdf_filename html_filename pdf_path html_path)) = w_files w \<and>
      \<not> block_ok (upload_and_record env w url pdf_filename html_filename pdf_path html_path)) \<and>
   (use_s3 env \<and> \<not> already_stored w row \<and> pdf_uploaded env row \<and> \<not> html_uploaded env row \<longrightarrow>
      w_db (fst (process_standard env w row)) = w_db w \<and>
      \<not> snd (process_standard env w row) \<and>
      (extract_detailed_data env (e_title_link row) row \<noteq> None \<longrightarrow>
         w_files (fst (process_standard env w row)) = w_files (rendered env w row) \<and>
         pdf_local env row \<in> set (w_files (fst (process_standard env w row))))) \<and>
   (\<not> (use_s3 env \<and> \<not> already_stored w row \<and> pdf_uploaded env row \<and> html_uploaded env row) \<longrightarrow>
      set (w_files w) \<subseteq> set (w_files (fst (process_standard env w row))) \<and>
      (use_s3 env \<and> \<not> already_stored w row \<and> extract_detailed_data env (e_title_link row) row \<noteq> None \<longrightarrow>
         w_files (fst (process_standard env w row)) = w_files (rendered env w row))) \<and>
   (w_db (fst (process_standard env w row)) \<noteq> w_db w \<longrightarrow>
      use_s3 env \<and> (already_stored w row \<or> (pdf_uploaded env row \<and> html_uploaded env row)) \<and>
      file_exists (fst (process_standard env w row)) (pdf_key row) \<and>
      file_exists (fst (process_standard env w row)) (html_key row))"
proof -
  have a: "\<not> (pdf_path \<noteq> None \<and> html_path \<noteq> None \<and>
        upload_outcome env (s3_prefix @ ''PDF/'' @ pdf_filename) = Uploaded \<and>
        upload_outcome env (s3_prefix @ ''HTML/'' @ html_filename) = Uploaded) \<longrightarrow>
      w_db (block_world (upload_and_record env w url pdf_filename html_filename pdf_path html_path)) = w_db w \<and>
      w_files (block_world (upload_and_record env w url pdf_filename html_filename pdf_path html_path)) = w_files w \<and>
      \<not> block_ok (upload_and_record env w url pdf_filename html_filename pdf_path html_path)"
    using upload_block_db[of env w url pdf_filename html_filename pdf_path html_path]
      upload_block_files[of pdf_path html_path env pdf_filename html_filename w url]
    by presburger
  have b: "use_s3 env \<and> \<not> already_stored w row \<and> pdf_uploaded env row \<and> \<not> html_uploaded env row \<longrightarrow>
      w_db (fst (process_standard env w row)) = w_db w \<and>
      \<not> snd (process_standard env w row) \<and>
      (extract_detailed_data env (e_title_link row) row \<noteq> None \<longrightarrow>
         w_files (fst (process_standard env w row)) = w_files (rendered env w row) \<and>
         pdf_local env row \<in> set (w_files (fst (process_standard env w row))))"
  proof
    assume h: "use_s3 env \<and> \<not> already_stored w row \<and> pdf_uploaded env row \<and> \<not> html_uploaded env row"
    then have nb: "\<not> (pdf_uploaded env row \<and> html_uploaded env row)" by simp
    have pw: "pdf_written env" using h by (simp add: pdf_uploaded_def)
    have "extract_detailed_data env (e_title_link row) row \<noteq> None \<longrightarrow>
         w_files (fst (process_standard env w row)) = w_files (rendered env w row) \<and>
         pdf_local env row \<in> set (w_files (fst (process_standard env w row)))"
    proof
      assume "extract_detailed_data env (e_title_link row) row \<noteq> None"
      then obtain data where "extract_detailed_data env (e_title_link row) row = Some data" by blast
      from process_failure_files[OF _ _ this nb] h
      have "w_files (fst (process_standard env w row)) = w_files (rendered env w row)" by blast
      then show "w_files (fst (process_standard env w row)) = w_files (rendered env w row) \<and>
         pdf_local env row \<in> set (w_files (fst (process_standard env w row)))"
        using pw by (simp add: rendered_files)
    qed
    then show "w_db (fst (process_standard env w row)) = w_db w \<and>
      \<not> snd (process_standard env w row) \<and>
      (extract_detailed_data env (e_title_link row) row \<noteq> None \<longrightarrow>
         w_files (fst (process_standard env w row)) = w_files (rendered env w row) \<and>
         pdf_local env row \<in> set (w_files (fst (process_standard env w row))))"
      using process_partial_failure[of env w row] h nb by blast
  qed
  have c: "\<not> (use_s3 env \<and> \<not> already_stored w row \<and> pdf_uploaded env row \<and> html_uploaded env row) \<longrightarrow>
      set (w_files w) \<subseteq> set (w_files (fst (process_standard env w row))) \<and>
      (use_s3 env \<and> \<not> already_stored w row \<and> extract_detailed_data env (e_title_link row) row \<noteq> None \<longrightarrow>
         w_files (fst (process_standard env w row)) = w_files (rendered env w row))"
    using process_files_kept[of env w row] process_failure_files[of env w row] by blast
  have d: "w_db (fst (process_standard env w row)) \<noteq> w_db w \<longrightarrow>
      use_s3 env \<and> (already_stored w row \<or> (pdf_uploaded env row \<and> html_uploaded env row)) \<and>
      file_exists (fst (process_standard env w row)) (pdf_key row) \<and>
      file_exists (fst (process_standard env w row)) (html_key row)"
    using process_change_needs_artifacts[of env w row] by blast
  from a b c d show ?thesis by blast
qed

text \<open>The theorem at the example entry, where only the PDF upload succeeds: the catalog
  is as before and all its rows are still unprocessed.\<close>

theorem no_partial_completion_witness:
  "use_s3 env_html_fails \<and> \<not> already_stored world_example entry_example \<and>
   pdf_uploaded env_html_fails entry_example \<and> \<not> html_uploaded env_html_fails entry_example \<and>
   extract_detailed_data env_html_fails (e_title_link entry_example) entry_example \<noteq> None \<and>
   w_db (fst (process_standard env_html_fails world_example entry_example)) = catalog_example \<and>
   list_all unprocessed (w_db (fst (process_standard env_html_fails world_example entry_example))) \<and>
   \<not> snd (process_standard env_html_fails world_example entry_example) \<and>
   pdf_local env_html_fails entry_example
     \<in> set (w_files (fst (process_standard env_html_fails world_example entry_example)))"
proof -
  have h1: "use_s3 env_html_fails" by (simp add: env_html_fails_def)
  have h2: "\<not> already_stored world_example entry_example"
    by (simp add: already_stored_def file_exists_def world_example_def)
  have h3: "pdf_uploaded env_html_fails entry_example"
    by (simp add: pdf_uploaded_def env_html_fails_def)
  have h4: "\<not> html_uploaded env_html_fails entry_example"
    using example_keys by (auto simp: html_uploaded_def env_html_fails_def)
  have h5: "extract_detailed_data env_html_fails (e_title_link entry_example) entry_example \<noteq> None"
    by (simp add: env_html_fails_def)
  have u: "list_all unprocessed catalog_example"
    by (simp add: catalog_example_def unprocessed_def null_or_empty_def get_col_def)
  have d: "w_db world_example = catalog_example" by (simp add: world_example_def)
  from no_partial_completion[of _ _ env_html_fails _ _ world_example _ entry_example]
  have "use_s3 env_html_fails \<and> \<not> already_stored world_example entry_example \<and>
        pdf_uploaded env_html_fails entry_example \<and> \<not> html_uploaded env_html_fails entry_example \<longrightarrow>
      w_db (fst (process_standard env_html_fails world_example entry_example)) = w_db world_example \<and>
      \<not> snd (process_standard env_html_fails world_example entry_example) \<and>
      (extract_detailed_data env_html_fails (e_title_link entry_example) entry_example \<noteq> None \<longrightarrow>
         w_files (fst (process_standard env_html_fails world_example entry_example))
           = w_files (rendered env_html_fails world_example entry_example) \<and>
         pdf_local env_html_fails entry_example
           \<in> set (w_files (fst (process_standard env_html_fails world_example entry_example))))"
    by blast
  with h1 h2 h3 h4 h5
  have r: "w_db (fst (process_standard env_html_fails world_example entry_example)) = w_db world_example"
    "\<not> snd (process_standard env_html_fails world_example entry_example)"
    "pdf_local env_html_fails entry_example
           \<in> set (w_files (fst (process_standard env_html_fails world_example entry_example)))"
    by blast+
  have "list_all unprocessed (w_db (fst (process_standard env_html_fails world_example entry_example)))"
    unfolding r(1) d by (rule u)
  with h1 h2 h3 h4 h5 r d show ?thesis by metis
qed

text \<open>
  Claim C10. When S3 is in use and the database does not raise, then after both uploads
  succeed, or both artifacts are found in the bucket, the table is the one
  \<open>update_s3_paths\<close> produces for the entry's \<open>title_link\<close>: every row with that
  \<open>title_link\<close> has both keys set and is no longer unprocessed, every other row is as
  before, and \<open>update_s3_paths\<close> returns \<open>True\<close> exactly when some row has that
  \<open>title_link\<close>; when none has, the table is unchanged.
\<close>

theorem completion_recorded_by_title_link:
  assumes "use_s3 env" and "update_exc env = None"
    and "already_stored w row \<or>
         (extract_detailed_data env (e_title_link row) row \<noteq> None \<and>
          pdf_uploaded env row \<and> html_uploaded env row)"
  shows "w_db (fst (process_standard env w row)) =
           fst (update_s3_paths None (w_db w) (e_title_link row)
                  (sanitize_filename (e_pdf_filename row)) (sanitize_filename (e_html_filename row))) \<and>
         snd (update_s3_paths None (w_db w) (e_title_link row)
                  (sanitize_filename (e_pdf_filename row)) (sanitize_filename (e_html_filename row)))
           = list_ex (links_to (e_title_link row)) (w_db w) \<and>
         list_all2 (\<lambda>r r'. if links_to (e_title_link row) r
                      then get_col r' ''aws_key'' = Str (pdf_key row) \<and>
                           get_col r' ''aws_html_key'' = Str (html_key row) \<and>
                           get_col r' ''title_link'' = get_col r ''title_link'' \<and>
                           \<not> unprocessed r'
                      else r' = r)
           (w_db w) (w_db (fst (process_standard env w row))) \<and>
         (\<not> list_ex (links_to (e_title_link row)) (w_db w) \<longrightarrow>
            w_db (fst (process_standard env w row)) = w_db w)"
proof -
  let ?pn = "sanitize_filename (e_pdf_filename row)" and ?hn = "sanitize_filename (e_html_filename row)"
  let ?upd = "update_s3_paths None (w_db w) (e_title_link row) ?pn ?hn"
  have rec: "recorded env w row = fst ?upd"
    using assms(2) by (simp add: recorded_def)
  have db: "w_db (fst (process_standard env w row)) = fst ?upd"
  proof (cases "already_stored w row")
    case True
    then show ?thesis using process_skip[OF assms(1) True] rec by simp
  next
    case False
    with assms(3) obtain data where d: "extract_detailed_data env (e_title_link row) row = Some data"
      and up: "pdf_uploaded env row" "html_uploaded env row" by blast
    from process_db[OF assms(1) False d] up rec show ?thesis by simp
  qed
  have res: "snd ?upd = list_ex (links_to (e_title_link row)) (w_db w)"
    by (rule update_result)
  have rows: "list_all2 (\<lambda>r r'. if links_to (e_title_link row) r
                      then get_col r' ''aws_key'' = Str (pdf_key row) \<and>
                           get_col r' ''aws_html_key'' = Str (html_key row) \<and>
                           get_col r' ''title_link'' = get_col r ''title_link'' \<and>
                           \<not> unprocessed r'
                      else r' = r)
           (w_db w) (fst ?upd)"
    unfolding pdf_key_def html_key_def by (rule update_rows)
  have nm: "\<not> list_ex (links_to (e_title_link row)) (w_db w) \<longrightarrow> fst ?upd = w_db w"
    using update_no_match[of "e_title_link row" "w_db w" None ?pn ?hn] by simp
  show ?thesis unfolding db using res rows nm by blast
qed

text \<open>The theorem at the example catalog, two rows of which have the entry's link.\<close>

theorem completion_recorded_by_title_link_witness:
  "use_s3 env_uploads \<and> update_exc env_uploads = None \<and>
   (already_stored world_example entry_example \<or>
      (extract_detailed_data env_uploads (e_title_link entry_example) entry_example \<noteq> None \<and>
       pdf_uploaded env_uploads entry_example \<and> html_uploaded env_uploads entry_example)) \<and>
   list_all2 (\<lambda>r r'. if links_to (e_title_link entry_example) r
                      then get_col r' ''aws_key'' = Str (pdf_key entry_example) \<and>
                           get_col r' ''aws_html_key'' = Str (html_key entry_example) \<and>
                           get_col r' ''title_link'' = get_col r ''title_link'' \<and>
                           \<not> unprocessed r'
                      else r' = r)
           (w_db world_example) (w_db (fst (process_standard env_uploads world_example entry_example))) \<and>
   map (links_to (e_title_link entry_example)) (w_db world_example) = [True, True, False]"
proof -
  have h1: "use_s3 env_uploads" and h2: "update_exc env_uploads = None"
    by (simp_all add: env_uploads_def)
  have h3: "already_stored world_example entry_example \<or>
      (extract_detailed_data env_uploads (e_title_link entry_example) entry_example \<noteq> None \<and>
       pdf_uploaded env_uploads entry_example \<and> html_uploaded env_uploads entry_example)"
    by (simp add: env_uploads_def pdf_uploaded_def html_uploaded_def)
  have m: "map (links_to (e_title_link entry_example)) (w_db world_example) = [True, True, False]"
    by (simp add: links_to_def entry_example_def world_example_def catalog_example_def get_col_def)
  from completion_recorded_by_title_link[OF h1 h2 h3] h1 h2 h3 m
  show ?thesis by blast
qed

end
